theory Spec2Isabelle
  imports Main
begin

section \<open>Values that travel on the bus\<close>

text \<open>
  The result of \<^verbatim>\<open>json.loads\<close>: Python's \<^verbatim>\<open>None\<close>, \<^verbatim>\<open>bool\<close>, \<^verbatim>\<open>int\<close>,
  \<^verbatim>\<open>str\<close>, \<^verbatim>\<open>list\<close> and \<^verbatim>\<open>dict\<close>.  A \<^verbatim>\<open>dict\<close> is kept as the list of its items in
  insertion order (a Python dict has pairwise distinct keys).  A string is the list of
  its characters.  JSON numbers with a fraction or an exponent (Python floats) are not
  part of the model.
\<close>

datatype json =
    JNull
  | JBool bool
  | JInt int
  | JStr string
  | JArr "json list"
  | JObj "(string \<times> json) list"

text \<open>The exception classes that occur; the last two derive from \<^verbatim>\<open>BaseException\<close> only.\<close>

datatype exn =
    ValueError
  | TypeError
  | AttributeError
  | IndexError
  | RuntimeError
  | KeyboardInterrupt
  | SystemExit

fun is_Exception :: "exn \<Rightarrow> bool" where
  "is_Exception KeyboardInterrupt = False"
| "is_Exception SystemExit = False"
| "is_Exception _ = True"

datatype 'a result = Returns 'a | Raises exn

text \<open>Truth value of an object, as \<^verbatim>\<open>if x\<close>, \<^verbatim>\<open>x and y\<close>, \<^verbatim>\<open>x or y\<close> test it.\<close>

fun truthy :: "json \<Rightarrow> bool" where
  "truthy JNull = False"
| "truthy (JBool b) = b"
| "truthy (JInt i) = (i \<noteq> 0)"
| "truthy (JStr s) = (s \<noteq> [])"
| "truthy (JArr xs) = (xs \<noteq> [])"
| "truthy (JObj kvs) = (kvs \<noteq> [])"

text \<open>\<^verbatim>\<open>d.get(k, default)\<close> on the items of a dict; \<^verbatim>\<open>d.get(k)\<close> has the default \<^verbatim>\<open>None\<close>.\<close>

definition get_default :: "(string \<times> json) list \<Rightarrow> string \<Rightarrow> json \<Rightarrow> json" where
  "get_default kvs k dflt = (case map_of kvs k of None \<Rightarrow> dflt | Some v \<Rightarrow> v)"

definition get :: "(string \<times> json) list \<Rightarrow> string \<Rightarrow> json" where
  "get kvs k = get_default kvs k JNull"

subsection \<open>Hashable values: the keys of a dict\<close>

text \<open>
  The objects a caller or a payload can supply as a device id and that Python can hash.
  Lists and dicts are unhashable: looking one up in a dict raises \<^verbatim>\<open>TypeError\<close>.
\<close>

datatype pyid = IdStr string | IdInt int | IdBool bool | IdNone

fun as_id :: "json \<Rightarrow> pyid option" where
  "as_id JNull = Some IdNone"
| "as_id (JBool b) = Some (IdBool b)"
| "as_id (JInt i) = Some (IdInt i)"
| "as_id (JStr s) = Some (IdStr s)"
| "as_id (JArr xs) = None"
| "as_id (JObj kvs) = None"

text \<open>
  \<^verbatim>\<open>True == 1\<close> and \<^verbatim>\<open>False == 0\<close> with equal hashes, so a bool and that int are one
  dict key.  Every dict of the model is indexed through \<open>hash_key\<close>.
\<close>

fun hash_key :: "pyid \<Rightarrow> pyid" where
  "hash_key (IdBool b) = IdInt (if b then 1 else 0)"
| "hash_key k = k"

subsection \<open>Formatting an id inside an f-string\<close>

definition digit_char :: "nat \<Rightarrow> char" where
  "digit_char d = char_of (48 + d)"

fun str_nat :: "nat \<Rightarrow> string" where
  "str_nat n = (if n < 10 then [digit_char n] else str_nat (n div 10) @ [digit_char (n mod 10)])"

declare str_nat.simps [simp del]

definition str_int :: "int \<Rightarrow> string" where
  "str_int i = (if i < 0 then CHR ''-'' # str_nat (nat (- i)) else str_nat (nat i))"

fun py_str :: "pyid \<Rightarrow> string" where
  "py_str (IdStr s) = s"
| "py_str (IdInt i) = str_int i"
| "py_str (IdBool b) = (if b then ''True'' else ''False'')"
| "py_str IdNone = ''None''"

section \<open>The data model\<close>

text \<open>
  One entry of \<^verbatim>\<open>self.devices\<close>.  The keys \<^verbatim>\<open>last_update\<close>, \<^verbatim>\<open>battery\<close> and
  \<^verbatim>\<open>signal_strength\<close> do not exist in a fresh record: \<open>None\<close> is the missing key,
  \<open>Some JNull\<close> the key bound to Python's \<^verbatim>\<open>None\<close>.
\<close>

record device =
  dev_id :: json
  dev_type :: json
  dev_name :: json
  capabilities :: json
  manufacturer :: json
  model :: json
  firmware_version :: json
  discovered_at :: string
  online :: json
  state :: "pyid \<rightharpoonup> json"
  last_update :: "string option"
  battery :: "json option"
  signal_strength :: "json option"

text \<open>A callback is a handle; what calling it does is part of the environment.\<close>

type_synonym callback = nat

text \<open>
  \<^verbatim>\<open>handler_calls\<close> is a history variable, absent from the source: every built-in handler
  records its arguments on entry.
\<close>

datatype handler_call =
    Discovery string json
  | StateUpdate string json
  | Status string json

text \<open>
  The manager: the two dicts of \<^verbatim>\<open>IoTDeviceManager\<close>, and the calls it has made to the
  MQTT client (\<^verbatim>\<open>client.subscribe\<close>, \<^verbatim>\<open>client.publish\<close>) and to the callbacks, each in
  the order made, whether the call returned or raised.  A published payload is recorded
  before \<^verbatim>\<open>json.dumps\<close>.
\<close>

record manager =
  devices :: "pyid \<rightharpoonup> device"
  callbacks :: "string \<rightharpoonup> callback list"
  subscribed :: "string list"
  published :: "(string \<times> json) list"
  invoked :: "(callback \<times> string \<times> json) list"
  handler_calls :: "handler_call list"

text \<open>
  What lies outside the repository.  \<open>loads raw\<close> is \<^verbatim>\<open>json.loads(raw.decode())\<close>, with
  \<open>None\<close> when decoding or parsing raises (\<^verbatim>\<open>UnicodeDecodeError\<close> and \<^verbatim>\<open>JSONDecodeError\<close>,
  both \<^verbatim>\<open>ValueError\<close>s).  \<open>callback_outcome c topic payload\<close> is the exception the call
  \<^verbatim>\<open>c(topic, payload)\<close> raises, if any; a callback does not touch the manager.
  \<open>subscribe_raises topic\<close> and \<open>publish_raises topic payload\<close> are the exceptions that
  \<^verbatim>\<open>client.subscribe(topic)\<close> and \<^verbatim>\<open>client.publish(topic, json.dumps(payload))\<close> raise, if
  any: the MQTT client validates its arguments.
\<close>

record env =
  loads :: "string \<Rightarrow> json option"
  callback_outcome :: "callback \<Rightarrow> string \<Rightarrow> json \<Rightarrow> exn option"
  subscribe_raises :: "string \<Rightarrow> exn option"
  publish_raises :: "string \<Rightarrow> json \<Rightarrow> exn option"

definition client_subscribe :: "env \<Rightarrow> string \<Rightarrow> manager \<Rightarrow> unit result \<times> manager" where
  "client_subscribe e topic s =
     (case subscribe_raises e topic of
        Some x \<Rightarrow> (Raises x, s\<lparr>subscribed := subscribed s @ [topic]\<rparr>)
      | None \<Rightarrow> (Returns (), s\<lparr>subscribed := subscribed s @ [topic]\<rparr>))"

definition client_publish :: "env \<Rightarrow> string \<Rightarrow> json \<Rightarrow> manager \<Rightarrow> unit result \<times> manager" where
  "client_publish e topic payload s =
     (case publish_raises e topic payload of
        Some x \<Rightarrow> (Raises x, s\<lparr>published := published s @ [(topic, payload)]\<rparr>)
      | None \<Rightarrow> (Returns (), s\<lparr>published := published s @ [(topic, payload)]\<rparr>))"

text \<open>A method that publishes and then returns \<^verbatim>\<open>True\<close>: what the client raises leaves it.\<close>

definition then_true :: "unit result \<times> manager \<Rightarrow> bool result \<times> manager" where
  "then_true r = (case r of (Raises x, s1) \<Rightarrow> (Raises x, s1) | (Returns u, s1) \<Rightarrow> (Returns True, s1))"

section \<open>Commands\<close>

text \<open>\<^verbatim>\<open>control_device(device_id, command, params=None)\<close>; \<open>now\<close> is \<^verbatim>\<open>datetime.now().isoformat()\<close>.\<close>

definition control_device ::
  "env \<Rightarrow> string \<Rightarrow> manager \<Rightarrow> pyid \<Rightarrow> json \<Rightarrow> json \<Rightarrow> bool result \<times> manager" where
  "control_device e now s device_id command params =
     (if devices s (hash_key device_id) = None then (Raises ValueError, s)
      else
        let topic = ''smarthome/devices/'' @ py_str device_id @ ''/command'';
            payload = JObj [(''command'', command),
                            (''params'', if truthy params then params else JObj []),
                            (''timestamp'', JStr now)]
        in then_true (client_publish e topic payload s))"

text \<open>The fixed-shape wrappers.  A call without \<^verbatim>\<open>params\<close> passes the default \<^verbatim>\<open>None\<close>.\<close>

definition turn_on :: "env \<Rightarrow> string \<Rightarrow> manager \<Rightarrow> pyid \<Rightarrow> bool result \<times> manager" where
  "turn_on e now s device_id = control_device e now s device_id (JStr ''turn_on'') JNull"

definition turn_off :: "env \<Rightarrow> string \<Rightarrow> manager \<Rightarrow> pyid \<Rightarrow> bool result \<times> manager" where
  "turn_off e now s device_id = control_device e now s device_id (JStr ''turn_off'') JNull"

definition set_brightness ::
  "env \<Rightarrow> string \<Rightarrow> manager \<Rightarrow> pyid \<Rightarrow> json \<Rightarrow> bool result \<times> manager" where
  "set_brightness e now s device_id brightness =
     control_device e now s device_id (JStr ''set_brightness'') (JObj [(''brightness'', brightness)])"

definition set_color ::
  "env \<Rightarrow> string \<Rightarrow> manager \<Rightarrow> pyid \<Rightarrow> json \<Rightarrow> bool result \<times> manager" where
  "set_color e now s device_id color =
     control_device e now s device_id (JStr ''set_color'') (JObj [(''color'', color)])"

definition set_temperature ::
  "env \<Rightarrow> string \<Rightarrow> manager \<Rightarrow> pyid \<Rightarrow> json \<Rightarrow> bool result \<times> manager" where
  "set_temperature e now s device_id temperature =
     control_device e now s device_id (JStr ''set_temperature'')
       (JObj [(''temperature'', temperature)])"

definition lock :: "env \<Rightarrow> string \<Rightarrow> manager \<Rightarrow> pyid \<Rightarrow> bool result \<times> manager" where
  "lock e now s device_id = control_device e now s device_id (JStr ''lock'') JNull"

definition unlock :: "env \<Rightarrow> string \<Rightarrow> manager \<Rightarrow> pyid \<Rightarrow> bool result \<times> manager" where
  "unlock e now s device_id = control_device e now s device_id (JStr ''unlock'') JNull"

definition create_scene ::
  "env \<Rightarrow> string \<Rightarrow> manager \<Rightarrow> json \<Rightarrow> json \<Rightarrow> bool result \<times> manager" where
  "create_scene e now s scene_name device_states =
     (let topic = ''smarthome/scenes/create'';
          payload = JObj [(''name'', scene_name), (''devices'', device_states),
                          (''created_at'', JStr now)]
      in then_true (client_publish e topic payload s))"

definition activate_scene :: "env \<Rightarrow> string \<Rightarrow> manager \<Rightarrow> json \<Rightarrow> bool result \<times> manager" where
  "activate_scene e now s scene_name =
     (let topic = ''smarthome/scenes/activate'';
          payload = JObj [(''name'', scene_name), (''timestamp'', JStr now)]
      in then_true (client_publish e topic payload s))"

definition create_automation ::
  "env \<Rightarrow> string \<Rightarrow> manager \<Rightarrow> json \<Rightarrow> json \<Rightarrow> json \<Rightarrow> json \<Rightarrow> bool result \<times> manager" where
  "create_automation e now s automation_name trigger conditions actions =
     (let topic = ''smarthome/automations/create'';
          payload = JObj [(''name'', automation_name), (''trigger'', trigger),
                          (''conditions'', conditions), (''actions'', actions),
                          (''created_at'', JStr now)]
      in then_true (client_publish e topic payload s))"

definition get_energy_usage :: "env \<Rightarrow> string \<Rightarrow> manager \<Rightarrow> json \<Rightarrow> bool result \<times> manager" where
  "get_energy_usage e now s device_id =
     (let topic = ''smarthome/energy/query'';
          payload = JObj [(''device_id'', device_id), (''timestamp'', JStr now)]
      in then_true (client_publish e topic payload s))"

text \<open>
  \<^verbatim>\<open>subscribe_to_topic\<close>: the client is asked only when the topic has no list yet.  When
  that call raises, the empty list stays and the callback is not appended.
\<close>

definition subscribe_to_topic ::
  "env \<Rightarrow> manager \<Rightarrow> string \<Rightarrow> callback \<Rightarrow> unit result \<times> manager" where
  "subscribe_to_topic e s topic callback =
     (case (if callbacks s topic = None
            then client_subscribe e topic (s\<lparr>callbacks := (callbacks s)(topic \<mapsto> [])\<rparr>)
            else (Returns (), s)) of
        (Raises x, s1) \<Rightarrow> (Raises x, s1)
      | (Returns u, s1) \<Rightarrow>
          (Returns (),
           s1\<lparr>callbacks := (callbacks s1)(topic \<mapsto> the (callbacks s1 topic) @ [callback])\<rparr>))"

text \<open>
  \<^verbatim>\<open>get_devices(device_type=None)\<close> with a \<^verbatim>\<open>str\<close> or \<^verbatim>\<open>None\<close> filter; a \<^verbatim>\<open>str\<close> equals a
  stored type only when that is the same \<^verbatim>\<open>str\<close>.  \<^verbatim>\<open>get_device\<close> is \<^verbatim>\<open>dict.get\<close>.
\<close>

definition get_devices :: "manager \<Rightarrow> string option \<Rightarrow> (pyid \<rightharpoonup> device)" where
  "get_devices s device_type =
     (case device_type of
        None \<Rightarrow> devices s
      | Some t \<Rightarrow>
          if t \<noteq> [] then
            (\<lambda>k. case devices s k of
                    None \<Rightarrow> None
                  | Some v \<Rightarrow> if dev_type v = JStr t then Some v else None)
          else devices s)"

definition get_device :: "manager \<Rightarrow> pyid \<Rightarrow> device option" where
  "get_device s device_id = devices s (hash_key device_id)"

section \<open>The built-in handlers\<close>

definition log_call :: "handler_call \<Rightarrow> manager \<Rightarrow> manager" where
  "log_call c s = s\<lparr>handler_calls := handler_calls s @ [c]\<rparr>"

text \<open>
  \<^verbatim>\<open>_handle_device_discovery\<close>.  \<^verbatim>\<open>payload.get\<close> exists on a dict only
  (\<^verbatim>\<open>AttributeError\<close> otherwise); \<^verbatim>\<open>device_id not in self.devices\<close> is evaluated only
  for a truthy id and hashes it (\<^verbatim>\<open>TypeError\<close> for a list or dict).  The record is
  stored before \<^verbatim>\<open>client.subscribe\<close> is called, so it stays when that call raises.
\<close>

definition handle_device_discovery ::
  "env \<Rightarrow> string \<Rightarrow> manager \<Rightarrow> string \<Rightarrow> json \<Rightarrow> unit result \<times> manager" where
  "handle_device_discovery e now s topic payload =
     (let s0 = log_call (Discovery topic payload) s in
      case payload of
        JObj kvs \<Rightarrow>
          (let device_id = get kvs ''device_id'';
               device_type = get kvs ''type'';
               device_name = get kvs ''name''
           in if truthy device_id then
                (case as_id device_id of
                   None \<Rightarrow> (Raises TypeError, s0)
                 | Some i \<Rightarrow>
                     if devices s0 (hash_key i) = None then
                       client_subscribe e (''smarthome/devices/'' @ py_str i @ ''/#'')
                          (s0\<lparr>devices := (devices s0)(hash_key i \<mapsto>
                             \<lparr>dev_id = device_id,
                              dev_type = device_type,
                              dev_name = device_name,
                              capabilities = get_default kvs ''capabilities'' (JArr []),
                              manufacturer = get kvs ''manufacturer'',
                              model = get kvs ''model'',
                              firmware_version = get kvs ''firmware_version'',
                              discovered_at = now,
                              online = JBool True,
                              state = Map.empty,
                              last_update = None,
                              battery = None,
                              signal_strength = None\<rparr>)\<rparr>)
                     else (Returns (), s0))
              else (Returns (), s0))
      | _ \<Rightarrow> (Raises AttributeError, s0))"

text \<open>
  \<^verbatim>\<open>dict.update(other)\<close> on the \<^verbatim>\<open>state\<close> dict.  A dict is merged item by item.  Anything
  else is iterated as a sequence of pairs: every element must itself be a sequence (or
  a dict, which yields its keys) of length two with a hashable first component.  An
  element that fails raises after the elements before it have been stored.
\<close>

fun as_pair :: "json \<Rightarrow> exn + json \<times> json" where
  "as_pair (JArr [k, v]) = Inr (k, v)"
| "as_pair (JArr xs) = Inl ValueError"
| "as_pair (JStr [a, b]) = Inr (JStr [a], JStr [b])"
| "as_pair (JStr cs) = Inl ValueError"
| "as_pair (JObj [(k1, v1), (k2, v2)]) = Inr (JStr k1, JStr k2)"
| "as_pair (JObj kvs) = Inl ValueError"
| "as_pair JNull = Inl TypeError"
| "as_pair (JBool b) = Inl TypeError"
| "as_pair (JInt i) = Inl TypeError"

fun merge_from_seq :: "(pyid \<rightharpoonup> json) \<Rightarrow> json list \<Rightarrow> unit result \<times> (pyid \<rightharpoonup> json)" where
  "merge_from_seq st [] = (Returns (), st)"
| "merge_from_seq st (item # items) =
     (case as_pair item of
        Inl e \<Rightarrow> (Raises e, st)
      | Inr (k, v) \<Rightarrow>
          (case as_id k of
             None \<Rightarrow> (Raises TypeError, st)
           | Some i \<Rightarrow> merge_from_seq (st(hash_key i \<mapsto> v)) items))"

fun merge_items :: "(pyid \<rightharpoonup> json) \<Rightarrow> (string \<times> json) list \<Rightarrow> (pyid \<rightharpoonup> json)" where
  "merge_items st [] = st"
| "merge_items st ((k, v) # kvs) = merge_items (st(IdStr k \<mapsto> v)) kvs"

fun dict_update :: "(pyid \<rightharpoonup> json) \<Rightarrow> json \<Rightarrow> unit result \<times> (pyid \<rightharpoonup> json)" where
  "dict_update st (JObj kvs) = (Returns (), merge_items st kvs)"
| "dict_update st (JArr items) = merge_from_seq st items"
| "dict_update st (JStr cs) = (if cs = [] then (Returns (), st) else (Raises ValueError, st))"
| "dict_update st JNull = (Raises TypeError, st)"
| "dict_update st (JBool b) = (Raises TypeError, st)"
| "dict_update st (JInt i) = (Raises TypeError, st)"

text \<open>
  \<^verbatim>\<open>_handle_device_state_update\<close>, called with the \<^verbatim>\<open>str\<close> taken from the topic.  The
  \<^verbatim>\<open>state\<close> dict is updated in place, so what \<^verbatim>\<open>update\<close> stored before raising stays.
\<close>

definition handle_device_state_update ::
  "string \<Rightarrow> manager \<Rightarrow> string \<Rightarrow> json \<Rightarrow> unit result \<times> manager" where
  "handle_device_state_update now s device_id payload =
     (let s0 = log_call (StateUpdate device_id payload) s in
      case devices s0 (IdStr device_id) of
        None \<Rightarrow> (Returns (), s0)
      | Some d \<Rightarrow>
          (case dict_update (state d) payload of
             (Raises e, st) \<Rightarrow>
               (Raises e, s0\<lparr>devices := (devices s0)(IdStr device_id \<mapsto> d\<lparr>state := st\<rparr>)\<rparr>)
           | (Returns u, st) \<Rightarrow>
               (Returns (),
                s0\<lparr>devices := (devices s0)(IdStr device_id \<mapsto>
                      d\<lparr>state := st, last_update := Some now\<rparr>)\<rparr>)))"

text \<open>\<^verbatim>\<open>_handle_device_status\<close>: the first \<^verbatim>\<open>payload.get\<close> raises before any assignment.\<close>

definition handle_device_status ::
  "manager \<Rightarrow> string \<Rightarrow> json \<Rightarrow> unit result \<times> manager" where
  "handle_device_status s device_id payload =
     (let s0 = log_call (Status device_id payload) s in
      case devices s0 (IdStr device_id) of
        None \<Rightarrow> (Returns (), s0)
      | Some d \<Rightarrow>
          (case payload of
             JObj kvs \<Rightarrow>
               (Returns (),
                s0\<lparr>devices := (devices s0)(IdStr device_id \<mapsto>
                      d\<lparr>online := get_default kvs ''online'' (JBool False),
                        battery := Some (get kvs ''battery''),
                        signal_strength := Some (get kvs ''signal_strength'')\<rparr>)\<rparr>)
           | _ \<Rightarrow> (Raises AttributeError, s0)))"

section \<open>Dispatch of an incoming message\<close>

text \<open>\<^verbatim>\<open>str.startswith\<close>, \<^verbatim>\<open>str.endswith\<close>, \<^verbatim>\<open>str.split('/')\<close> and list indexing.\<close>

definition startswith :: "string \<Rightarrow> string \<Rightarrow> bool" where
  "startswith s p = (take (length p) s = p)"

definition endswith :: "string \<Rightarrow> string \<Rightarrow> bool" where
  "endswith s p = (length p \<le> length s \<and> drop (length s - length p) s = p)"

fun split_on :: "char \<Rightarrow> string \<Rightarrow> string list" where
  "split_on c [] = [[]]"
| "split_on c (x # xs) =
     (if x = c then [] # split_on c xs
      else (case split_on c xs of
              [] \<Rightarrow> [[x]]
            | w # ws \<Rightarrow> (x # w) # ws))"

definition index :: "'a list \<Rightarrow> nat \<Rightarrow> exn + 'a" where
  "index xs i = (if i < length xs then Inr (xs ! i) else Inl IndexError)"

record message =
  msg_topic :: string
  msg_payload :: string

text \<open>The \<^verbatim>\<open>for\<close> loop over \<^verbatim>\<open>self.callbacks[topic]\<close>: the first exception ends it.\<close>

fun run_callbacks ::
  "env \<Rightarrow> string \<Rightarrow> json \<Rightarrow> callback list \<Rightarrow> manager \<Rightarrow> unit result \<times> manager" where
  "run_callbacks e topic payload [] s = (Returns (), s)"
| "run_callbacks e topic payload (c # cs) s =
     (let s1 = s\<lparr>invoked := invoked s @ [(c, topic, payload)]\<rparr> in
      case callback_outcome e c topic payload of
        Some x \<Rightarrow> (Raises x, s1)
      | None \<Rightarrow> run_callbacks e topic payload cs s1)"

text \<open>The \<^verbatim>\<open>if\<close>/\<^verbatim>\<open>elif\<close> chain of \<^verbatim>\<open>_on_message\<close>.\<close>

definition builtin_handling ::
  "env \<Rightarrow> string \<Rightarrow> manager \<Rightarrow> string \<Rightarrow> json \<Rightarrow> unit result \<times> manager" where
  "builtin_handling e now s topic payload =
     (if startswith topic ''smarthome/discovery/'' then
        handle_device_discovery e now s topic payload
      else if endswith topic ''/state'' then
        (case index (split_on CHR ''/'' topic) 2 of
           Inl x \<Rightarrow> (Raises x, s)
         | Inr device_id \<Rightarrow> handle_device_state_update now s device_id payload)
      else if endswith topic ''/status'' then
        (case index (split_on CHR ''/'' topic) 2 of
           Inl x \<Rightarrow> (Raises x, s)
         | Inr device_id \<Rightarrow> handle_device_status s device_id payload)
      else (Returns (), s))"

text \<open>The body of the \<^verbatim>\<open>try\<close> block.\<close>

definition try_body :: "env \<Rightarrow> string \<Rightarrow> manager \<Rightarrow> message \<Rightarrow> unit result \<times> manager" where
  "try_body e now s msg =
     (let topic = msg_topic msg in
      case loads e (msg_payload msg) of
        None \<Rightarrow> (Raises ValueError, s)
      | Some payload \<Rightarrow>
          (case builtin_handling e now s topic payload of
             (Raises x, s1) \<Rightarrow> (Raises x, s1)
           | (Returns u, s1) \<Rightarrow>
               (case callbacks s1 topic of
                  None \<Rightarrow> (Returns (), s1)
                | Some cbs \<Rightarrow> run_callbacks e topic payload cbs s1)))"

text \<open>
  \<^verbatim>\<open>_on_message\<close>: \<^verbatim>\<open>except Exception\<close> logs and returns; an exception that is not an
  \<^verbatim>\<open>Exception\<close> leaves the method.
\<close>

definition on_message :: "env \<Rightarrow> string \<Rightarrow> manager \<Rightarrow> message \<Rightarrow> unit result \<times> manager" where
  "on_message e now s msg =
     (case try_body e now s msg of
        (Raises x, s1) \<Rightarrow> if is_Exception x then (Returns (), s1) else (Raises x, s1)
      | (Returns u, s1) \<Rightarrow> (Returns (), s1))"

text \<open>
  The transport delivers the messages in arrival order, each with the clock reading of
  its handling; an exception that leaves \<^verbatim>\<open>_on_message\<close> ends the delivery.
\<close>

fun process_events ::
  "env \<Rightarrow> manager \<Rightarrow> (string \<times> message) list \<Rightarrow> unit result \<times> manager" where
  "process_events e s [] = (Returns (), s)"
| "process_events e s ((now, msg) # rest) =
     (case on_message e now s msg of
        (Raises x, s1) \<Rightarrow> (Raises x, s1)
      | (Returns u, s1) \<Rightarrow> process_events e s1 rest)"

section \<open>Every operation of the manager\<close>

datatype operation =
    OnMessage message
  | ControlDevice pyid json json
  | TurnOn pyid
  | TurnOff pyid
  | SetBrightness pyid json
  | SetColor pyid json
  | SetTemperature pyid json
  | Lock pyid
  | Unlock pyid
  | CreateScene json json
  | ActivateScene json
  | CreateAutomation json json json json
  | SubscribeToTopic string callback
  | GetEnergyUsage json
  | GetDevices "string option"
  | GetDevice pyid

text \<open>The manager after an operation, whether the operation returned or raised.\<close>

fun perform :: "env \<Rightarrow> string \<Rightarrow> manager \<Rightarrow> operation \<Rightarrow> manager" where
  "perform e now s (OnMessage msg) = snd (on_message e now s msg)"
| "perform e now s (ControlDevice i c p) = snd (control_device e now s i c p)"
| "perform e now s (TurnOn i) = snd (turn_on e now s i)"
| "perform e now s (TurnOff i) = snd (turn_off e now s i)"
| "perform e now s (SetBrightness i b) = snd (set_brightness e now s i b)"
| "perform e now s (SetColor i c) = snd (set_color e now s i c)"
| "perform e now s (SetTemperature i t) = snd (set_temperature e now s i t)"
| "perform e now s (Lock i) = snd (lock e now s i)"
| "perform e now s (Unlock i) = snd (unlock e now s i)"
| "perform e now s (CreateScene n d) = snd (create_scene e now s n d)"
| "perform e now s (ActivateScene n) = snd (activate_scene e now s n)"
| "perform e now s (CreateAutomation n t c a) = snd (create_automation e now s n t c a)"
| "perform e now s (SubscribeToTopic t c) = snd (subscribe_to_topic e s t c)"
| "perform e now s (GetEnergyUsage i) = snd (get_energy_usage e now s i)"
| "perform e now s (GetDevices t) = s"
| "perform e now s (GetDevice i) = s"

section \<open>Example inputs\<close>

text \<open>The manager as \<^verbatim>\<open>__init__\<close> leaves it.\<close>

definition init :: manager where
  "init = \<lparr>devices = Map.empty, callbacks = Map.empty, subscribed = [], published = [],
           invoked = [], handler_calls = []\<rparr>"

definition d1_items :: "(string \<times> json) list" where
  "d1_items = [(''device_id'', JStr ''d1''), (''type'', JStr ''light'')]"

definition d1_announcement :: json where
  "d1_announcement = JObj d1_items"

text \<open>
  The argument checks of the paho-mqtt client that the source imports.  \<^verbatim>\<open>subscribe\<close>
  raises \<^verbatim>\<open>ValueError\<close> for a filter that is empty, is longer than 65535, has a wildcard
  inside a longer level, or has \<^verbatim>\<open>#\<close> before the last level; \<^verbatim>\<open>publish\<close> raises it for a
  topic that is empty or contains a wildcard.
\<close>

fun has_hash_slash :: "string \<Rightarrow> bool" where
  "has_hash_slash (a # b # cs) = ((a = CHR ''#'' \<and> b = CHR ''/'') \<or> has_hash_slash (b # cs))"
| "has_hash_slash cs = False"

definition paho_subscribe_raises :: "string \<Rightarrow> exn option" where
  "paho_subscribe_raises sub =
     (if sub = [] \<or> 65535 < length sub
         \<or> list_ex (\<lambda>p. 1 < length p \<and> (CHR ''+'' \<in> set p \<or> CHR ''#'' \<in> set p))
              (split_on CHR ''/'' sub)
         \<or> has_hash_slash sub
      then Some ValueError else None)"

definition paho_publish_raises :: "string \<Rightarrow> json \<Rightarrow> exn option" where
  "paho_publish_raises topic payload =
     (if topic = [] \<or> CHR ''+'' \<in> set topic \<or> CHR ''#'' \<in> set topic
      then Some ValueError else None)"

text \<open>
  A decoder that knows two payloads, and two environments over it and that client: one
  where every callback returns, one where callback 1 raises a \<^verbatim>\<open>ValueError\<close> and
  callback 2 a \<^verbatim>\<open>KeyboardInterrupt\<close>.
\<close>

definition toy_loads :: "string \<Rightarrow> json option" where
  "toy_loads raw =
     (if raw = ''{}'' then Some (JObj []) else if raw = ''5'' then Some (JInt 5) else None)"

definition quiet_env :: env where
  "quiet_env = \<lparr>loads = toy_loads, callback_outcome = (\<lambda>c topic payload. None),
                 subscribe_raises = paho_subscribe_raises,
                 publish_raises = paho_publish_raises\<rparr>"

definition faulty_env :: env where
  "faulty_env =
     \<lparr>loads = toy_loads,
      callback_outcome = (\<lambda>c topic payload.
         if c = 1 then Some ValueError else if c = 2 then Some KeyboardInterrupt else None),
      subscribe_raises = paho_subscribe_raises,
      publish_raises = paho_publish_raises\<rparr>"

text \<open>The record that the announcement of \<^verbatim>\<open>d1\<close> creates.\<close>

definition d1_record :: device where
  "d1_record =
     \<lparr>dev_id = JStr ''d1'', dev_type = JStr ''light'', dev_name = JNull,
      capabilities = JArr [], manufacturer = JNull, model = JNull,
      firmware_version = JNull, discovered_at = ''2026-01-01T00:00:00'',
      online = JBool True, state = Map.empty, last_update = None,
      battery = None, signal_strength = None\<rparr>"

text \<open>The manager after the light \<^verbatim>\<open>d1\<close> has been discovered.\<close>

definition home :: manager where
  "home = snd (handle_device_discovery quiet_env ''2026-01-01T00:00:00'' init
                 ''smarthome/discovery/d1'' d1_announcement)"

text \<open>The manager after a device whose id is the one character \<^verbatim>\<open>+\<close> has been discovered.\<close>

definition plus_home :: manager where
  "plus_home = snd (handle_device_discovery quiet_env ''2026-01-01T00:00:00'' init
                      ''smarthome/discovery/plus'' (JObj [(''device_id'', JStr ''+'')]))"

section \<open>Notions used by the properties\<close>

text \<open>
  Every record of \<open>s\<close> is still in \<open>s'\<close> under its key, with the same \<^verbatim>\<open>id\<close> field.
\<close>

definition keeps_records :: "manager \<Rightarrow> manager \<Rightarrow> bool" where
  "keeps_records s s' =
     (\<forall>k d. devices s k = Some d \<longrightarrow> (\<exists>d'. devices s' k = Some d' \<and> dev_id d' = dev_id d))"

text \<open>A run of operations, each with the clock reading of its execution.\<close>

fun perform_all :: "env \<Rightarrow> manager \<Rightarrow> (string \<times> operation) list \<Rightarrow> manager" where
  "perform_all e s [] = s"
| "perform_all e s ((now, op) # ops) = perform_all e (perform e now s op) ops"

text \<open>The callbacks of a list up to and including the first one that raises.\<close>

fun upto_first_raise :: "env \<Rightarrow> string \<Rightarrow> json \<Rightarrow> callback list \<Rightarrow> callback list" where
  "upto_first_raise e topic payload [] = []"
| "upto_first_raise e topic payload (c # cs) =
     (if callback_outcome e c topic payload = None
      then c # upto_first_raise e topic payload cs else [c])"

section \<open>Properties\<close>

subsection \<open>Commands to unknown and to registered devices\<close>

lemma home_devices_d1: "devices home (IdStr ''d1'') = Some d1_record"
  by (simp add: home_def init_def d1_announcement_def d1_items_def d1_record_def
      handle_device_discovery_def log_call_def client_subscribe_def get_def get_default_def
      Let_def split: option.splits)

lemma home_devices_d2: "devices home (IdStr ''d2'') = None"
  by (simp add: home_def init_def d1_announcement_def d1_items_def
      handle_device_discovery_def log_call_def client_subscribe_def get_def get_default_def
      Let_def split: option.splits)

lemma home_callbacks: "callbacks home topic = None"
  by (simp add: home_def init_def d1_announcement_def d1_items_def
      handle_device_discovery_def log_call_def client_subscribe_def get_def get_default_def
      Let_def split: option.splits)

lemma home_invoked: "invoked home = []"
  by (simp add: home_def init_def d1_announcement_def d1_items_def
      handle_device_discovery_def log_call_def client_subscribe_def get_def get_default_def
      Let_def split: option.splits)

lemma plus_home_devices: "devices plus_home (IdStr ''+'') \<noteq> None"
  by (simp add: plus_home_def init_def handle_device_discovery_def log_call_def
      client_subscribe_def get_def get_default_def Let_def split: option.splits)

text \<open>
  Claim C1, as amended.  When the device id is not a key of the registry,
  \<^verbatim>\<open>control_device\<close> raises the \<^verbatim>\<open>ValueError\<close> of an unknown device and the manager is left
  as it was: no call to \<^verbatim>\<open>client.publish\<close> is made and the registry is the same.  When the
  id is a key, exactly one call to \<^verbatim>\<open>client.publish\<close> is made, for the topic
  \<^verbatim>\<open>smarthome/devices/{device_id}/command\<close> with an envelope that has the keys
  \<^verbatim>\<open>command\<close>, \<^verbatim>\<open>params\<close> and \<^verbatim>\<open>timestamp\<close> and no other, and the registry is the same; the
  method returns \<^verbatim>\<open>True\<close> when the client accepts the call, and what the client raises
  leaves the method otherwise.
\<close>

theorem control_device_unknown_or_published:
  "(devices s (hash_key device_id) = None \<longrightarrow>
      control_device e now s device_id command params = (Raises ValueError, s))
   \<and> (devices s (hash_key device_id) \<noteq> None \<longrightarrow>
      control_device e now s device_id command params =
        ((case publish_raises e (''smarthome/devices/'' @ py_str device_id @ ''/command'')
                 (JObj [(''command'', command),
                        (''params'', if truthy params then params else JObj []),
                        (''timestamp'', JStr now)]) of
            None \<Rightarrow> Returns True
          | Some x \<Rightarrow> Raises x),
         s\<lparr>published := published s @
              [(''smarthome/devices/'' @ py_str device_id @ ''/command'',
                JObj [(''command'', command),
                      (''params'', if truthy params then params else JObj []),
                      (''timestamp'', JStr now)])]\<rparr>))"
  by (simp add: control_device_def client_publish_def then_true_def Let_def split: option.splits)

theorem control_device_unknown_or_published_witness:
  "devices init (hash_key (IdStr ''d2'')) = None
   \<and> control_device quiet_env ''2026-01-01T00:00:05'' init (IdStr ''d2'') (JStr ''turn_on'') JNull
       = (Raises ValueError, init)
   \<and> devices home (hash_key (IdStr ''d1'')) \<noteq> None
   \<and> control_device quiet_env ''2026-01-01T00:00:05'' home (IdStr ''d1'') (JStr ''turn_on'') JNull
       = (Returns True,
          home\<lparr>published := published home @
             [(''smarthome/devices/d1/command'',
               JObj [(''command'', JStr ''turn_on''), (''params'', JObj []),
                     (''timestamp'', JStr ''2026-01-01T00:00:05'')])]\<rparr>)
   \<and> devices plus_home (hash_key (IdStr ''+'')) \<noteq> None
   \<and> control_device quiet_env ''2026-01-01T00:00:05'' plus_home (IdStr ''+'') (JStr ''turn_on'') JNull
       = (Raises ValueError,
          plus_home\<lparr>published := published plus_home @
             [(''smarthome/devices/+/command'',
               JObj [(''command'', JStr ''turn_on''), (''params'', JObj []),
                     (''timestamp'', JStr ''2026-01-01T00:00:05'')])]\<rparr>)"
  using control_device_unknown_or_published
          [of init "IdStr ''d2''" quiet_env "''2026-01-01T00:00:05''" "JStr ''turn_on''" JNull]
        control_device_unknown_or_published
          [of home "IdStr ''d1''" quiet_env "''2026-01-01T00:00:05''" "JStr ''turn_on''" JNull]
        control_device_unknown_or_published
          [of plus_home "IdStr ''+''" quiet_env "''2026-01-01T00:00:05''" "JStr ''turn_on''" JNull]
        plus_home_devices
  by (simp add: init_def home_devices_d1 quiet_env_def paho_publish_raises_def)

text \<open>
  The claim as first stated fails for a registered id with a wildcard character.  The
  device \<^verbatim>\<open>+\<close> is registered by a discovery message (its filter
  \<^verbatim>\<open>smarthome/devices/+/#\<close> is a valid one), and \<^verbatim>\<open>client.publish\<close> refuses the topic
  \<^verbatim>\<open>smarthome/devices/+/command\<close>: the method raises instead of returning \<^verbatim>\<open>True\<close>.
\<close>

theorem control_device_wildcard_id_counterexample:
  "handle_device_discovery quiet_env ''2026-01-01T00:00:00'' init ''smarthome/discovery/plus''
       (JObj [(''device_id'', JStr ''+'')])
     = (Returns (), plus_home)
   \<and> subscribed plus_home = [''smarthome/devices/+/#'']
   \<and> devices plus_home (hash_key (IdStr ''+'')) \<noteq> None
   \<and> publish_raises quiet_env ''smarthome/devices/+/command''
        (JObj [(''command'', JStr ''turn_on''), (''params'', JObj []),
               (''timestamp'', JStr ''2026-01-01T00:00:05'')]) = Some ValueError
   \<and> fst (control_device quiet_env ''2026-01-01T00:00:05'' plus_home (IdStr ''+'')
             (JStr ''turn_on'') JNull) = Raises ValueError"
  by (simp add: plus_home_def init_def handle_device_discovery_def log_call_def
      client_subscribe_def client_publish_def then_true_def control_device_def
      get_def get_default_def quiet_env_def paho_subscribe_raises_def
      paho_publish_raises_def Let_def)

subsection \<open>Records are kept\<close>

lemma keeps_records_same: "devices s' = devices s \<Longrightarrow> keeps_records s s'"
  by (simp add: keeps_records_def)

lemma keeps_records_trans: "keeps_records s s1 \<Longrightarrow> keeps_records s1 s2 \<Longrightarrow> keeps_records s s2"
  unfolding keeps_records_def by metis

lemma discovery_keeps: "keeps_records s (snd (handle_device_discovery e now s topic payload))"
  by (auto simp add: keeps_records_def handle_device_discovery_def log_call_def
      client_subscribe_def Let_def split: json.splits option.splits)

lemma state_update_keeps:
  "keeps_records s (snd (handle_device_state_update now s device_id payload))"
  by (auto simp add: keeps_records_def handle_device_state_update_def log_call_def Let_def
      split: option.splits prod.splits result.splits)

lemma status_keeps: "keeps_records s (snd (handle_device_status s device_id payload))"
  by (auto simp add: keeps_records_def handle_device_status_def log_call_def Let_def
      split: json.splits option.splits)

lemma run_callbacks_frame:
  "devices (snd (run_callbacks e topic payload cbs s)) = devices s
   \<and> callbacks (snd (run_callbacks e topic payload cbs s)) = callbacks s
   \<and> subscribed (snd (run_callbacks e topic payload cbs s)) = subscribed s
   \<and> published (snd (run_callbacks e topic payload cbs s)) = published s
   \<and> handler_calls (snd (run_callbacks e topic payload cbs s)) = handler_calls s"
  by (induction cbs arbitrary: s) (auto simp add: Let_def split: option.splits)

lemma builtin_keeps: "keeps_records s (snd (builtin_handling e now s topic payload))"
  by (auto simp add: builtin_handling_def discovery_keeps state_update_keeps status_keeps
      keeps_records_same split: sum.splits)

lemma try_body_keeps: "keeps_records s (snd (try_body e now s msg))"
proof (cases "loads e (msg_payload msg)")
  case None
  then show ?thesis by (simp add: try_body_def keeps_records_same)
next
  case (Some payload)
  obtain r s1 where b: "builtin_handling e now s (msg_topic msg) payload = (r, s1)"
    by (cases "builtin_handling e now s (msg_topic msg) payload")
  have k1: "keeps_records s s1"
    using builtin_keeps [of s e now "msg_topic msg" payload] b by simp
  have "keeps_records s1 (snd (try_body e now s msg))"
    using Some b
    by (auto simp add: try_body_def keeps_records_same run_callbacks_frame Let_def
        split: result.splits option.splits)
  with k1 show ?thesis by (rule keeps_records_trans)
qed

lemma on_message_keeps: "keeps_records s (snd (on_message e now s msg))"
  using try_body_keeps [of s e now msg]
  by (auto simp add: on_message_def split: prod.splits result.splits)

lemma client_publish_devices: "devices (snd (client_publish e topic payload s)) = devices s"
  by (simp add: client_publish_def split: option.splits)

lemma then_true_snd: "snd (then_true r) = snd r"
  by (simp add: then_true_def split: prod.splits result.splits)

lemma control_device_keeps: "keeps_records s (snd (control_device e now s i c p))"
  by (simp add: control_device_def then_true_snd client_publish_devices keeps_records_same Let_def)

lemma subscribe_to_topic_keeps: "keeps_records s (snd (subscribe_to_topic e s t c))"
  by (auto simp add: subscribe_to_topic_def client_subscribe_def keeps_records_same
      split: option.splits)

lemma perform_keeps: "keeps_records s (perform e now s op)"
  by (cases op)
     (simp_all add: on_message_keeps control_device_keeps turn_on_def turn_off_def
        set_brightness_def set_color_def set_temperature_def lock_def unlock_def
        create_scene_def activate_scene_def create_automation_def get_energy_usage_def
        subscribe_to_topic_keeps then_true_snd client_publish_devices keeps_records_same Let_def)

lemma perform_all_keeps: "keeps_records s (perform_all e s ops)"
proof (induction ops arbitrary: s)
  case Nil
  show ?case by (simp add: keeps_records_same)
next
  case (Cons a ops)
  obtain now op where a: "a = (now, op)" by (cases a)
  show ?case
    unfolding a perform_all.simps
    using perform_keeps Cons.IH by (rule keeps_records_trans)
qed

subsection \<open>Discovery\<close>

lemma discovery_known_noop:
  "as_id (get kvs ''device_id'') = Some i \<Longrightarrow> devices s (hash_key i) \<noteq> None \<Longrightarrow>
   handle_device_discovery e now s topic (JObj kvs)
     = (Returns (), s\<lparr>handler_calls := handler_calls s @ [Discovery topic (JObj kvs)]\<rparr>)"
  by (auto simp add: handle_device_discovery_def log_call_def Let_def)

lemma discovery_fresh:
  "truthy (get kvs ''device_id'') \<Longrightarrow> as_id (get kvs ''device_id'') = Some i \<Longrightarrow>
   devices s (hash_key i) = None \<Longrightarrow>
   handle_device_discovery e now s topic (JObj kvs)
     = ((case subscribe_raises e (''smarthome/devices/'' @ py_str i @ ''/#'') of
           None \<Rightarrow> Returns ()
         | Some x \<Rightarrow> Raises x),
        s\<lparr>devices := (devices s)(hash_key i \<mapsto>
              \<lparr>dev_id = get kvs ''device_id'',
               dev_type = get kvs ''type'',
               dev_name = get kvs ''name'',
               capabilities = get_default kvs ''capabilities'' (JArr []),
               manufacturer = get kvs ''manufacturer'',
               model = get kvs ''model'',
               firmware_version = get kvs ''firmware_version'',
               discovered_at = now,
               online = JBool True,
               state = Map.empty,
               last_update = None,
               battery = None,
               signal_strength = None\<rparr>),
           subscribed := subscribed s @ [''smarthome/devices/'' @ py_str i @ ''/#''],
           handler_calls := handler_calls s @ [Discovery topic (JObj kvs)]\<rparr>)"
  by (simp add: handle_device_discovery_def log_call_def client_subscribe_def Let_def
      split: option.splits)

lemma discovery_falsy:
  "\<not> truthy (get kvs ''device_id'') \<Longrightarrow>
   handle_device_discovery e now s topic (JObj kvs)
     = (Returns (), s\<lparr>handler_calls := handler_calls s @ [Discovery topic (JObj kvs)]\<rparr>)"
  by (simp add: handle_device_discovery_def log_call_def Let_def)

lemma get_absent: "map_of kvs k = None \<Longrightarrow> get kvs k = JNull"
  by (simp add: get_def get_default_def)

lemma get_present: "map_of kvs k = Some v \<Longrightarrow> get kvs k = v"
  by (simp add: get_def get_default_def)

lemma map_of_filter_key: "map_of (filter (\<lambda>kv. fst kv \<noteq> k) kvs) k = None"
  by (induction kvs) auto

text \<open>
  Claim C2, as amended.  A discovery payload whose \<^verbatim>\<open>device_id\<close> is truthy (a non-empty
  string, a non-zero number, \<^verbatim>\<open>True\<close>), hashable and not yet a key of the registry creates
  exactly one record under that id and makes exactly one call to \<^verbatim>\<open>client.subscribe\<close>,
  for \<^verbatim>\<open>smarthome/devices/{device_id}/#\<close>; the handler returns when the client accepts
  the filter, and what the client raises leaves the handler otherwise, with the record
  stored.  After any run of operations, a further discovery payload with the same id
  leaves the registry as it is and makes no call to \<^verbatim>\<open>client.subscribe\<close>, and the record
  under the id still has the \<^verbatim>\<open>id\<close> field of the first payload.
\<close>

theorem discovery_once:
  assumes "truthy (get kvs ''device_id'')"
    and "as_id (get kvs ''device_id'') = Some i"
    and "devices s (hash_key i) = None"
  shows "handle_device_discovery e now s topic (JObj kvs)
     = ((case subscribe_raises e (''smarthome/devices/'' @ py_str i @ ''/#'') of
           None \<Rightarrow> Returns ()
         | Some x \<Rightarrow> Raises x),
        s\<lparr>devices := (devices s)(hash_key i \<mapsto>
              \<lparr>dev_id = get kvs ''device_id'',
               dev_type = get kvs ''type'',
               dev_name = get kvs ''name'',
               capabilities = get_default kvs ''capabilities'' (JArr []),
               manufacturer = get kvs ''manufacturer'',
               model = get kvs ''model'',
               firmware_version = get kvs ''firmware_version'',
               discovered_at = now,
               online = JBool True,
               state = Map.empty,
               last_update = None,
               battery = None,
               signal_strength = None\<rparr>),
           subscribed := subscribed s @ [''smarthome/devices/'' @ py_str i @ ''/#''],
           handler_calls := handler_calls s @ [Discovery topic (JObj kvs)]\<rparr>)
   \<and> (\<forall>ops now' topic' kvs' i'.
         as_id (get kvs' ''device_id'') = Some i' \<and> hash_key i' = hash_key i \<longrightarrow>
         (let s2 = perform_all e (snd (handle_device_discovery e now s topic (JObj kvs))) ops;
              s3 = snd (handle_device_discovery e now' s2 topic' (JObj kvs'))
          in fst (handle_device_discovery e now' s2 topic' (JObj kvs')) = Returns ()
             \<and> devices s3 = devices s2
             \<and> subscribed s3 = subscribed s2
             \<and> (\<exists>d. devices s3 (hash_key i) = Some d \<and> dev_id d = get kvs ''device_id'')))"
proof (intro conjI allI impI)
  show first: "handle_device_discovery e now s topic (JObj kvs)
     = ((case subscribe_raises e (''smarthome/devices/'' @ py_str i @ ''/#'') of
           None \<Rightarrow> Returns ()
         | Some x \<Rightarrow> Raises x),
        s\<lparr>devices := (devices s)(hash_key i \<mapsto>
              \<lparr>dev_id = get kvs ''device_id'',
               dev_type = get kvs ''type'',
               dev_name = get kvs ''name'',
               capabilities = get_default kvs ''capabilities'' (JArr []),
               manufacturer = get kvs ''manufacturer'',
               model = get kvs ''model'',
               firmware_version = get kvs ''firmware_version'',
               discovered_at = now,
               online = JBool True,
               state = Map.empty,
               last_update = None,
               battery = None,
               signal_strength = None\<rparr>),
           subscribed := subscribed s @ [''smarthome/devices/'' @ py_str i @ ''/#''],
           handler_calls := handler_calls s @ [Discovery topic (JObj kvs)]\<rparr>)"
    using assms by (rule discovery_fresh)
  fix ops now' topic' kvs' i'
  assume same: "as_id (get kvs' ''device_id'') = Some i' \<and> hash_key i' = hash_key i"
  define s1 where "s1 = snd (handle_device_discovery e now s topic (JObj kvs))"
  define s2 where "s2 = perform_all e s1 ops"
  have "\<exists>d. devices s1 (hash_key i) = Some d \<and> dev_id d = get kvs ''device_id''"
    unfolding s1_def first by simp
  moreover have "keeps_records s1 s2"
    unfolding s2_def by (rule perform_all_keeps)
  ultimately obtain d where d: "devices s2 (hash_key i) = Some d" "dev_id d = get kvs ''device_id''"
    unfolding keeps_records_def by fastforce
  have "devices s2 (hash_key i') \<noteq> None"
    using d same by simp
  with same have noop: "handle_device_discovery e now' s2 topic' (JObj kvs')
     = (Returns (), s2\<lparr>handler_calls := handler_calls s2 @ [Discovery topic' (JObj kvs')]\<rparr>)"
    by (simp add: discovery_known_noop)
  show "let s2 = perform_all e (snd (handle_device_discovery e now s topic (JObj kvs))) ops;
            s3 = snd (handle_device_discovery e now' s2 topic' (JObj kvs'))
        in fst (handle_device_discovery e now' s2 topic' (JObj kvs')) = Returns ()
           \<and> devices s3 = devices s2
           \<and> subscribed s3 = subscribed s2
           \<and> (\<exists>d. devices s3 (hash_key i) = Some d \<and> dev_id d = get kvs ''device_id'')"
    using noop d unfolding Let_def s2_def s1_def by simp
qed

theorem discovery_once_witness:
  "truthy (get d1_items ''device_id'')
   \<and> as_id (get d1_items ''device_id'') = Some (IdStr ''d1'')
   \<and> devices init (hash_key (IdStr ''d1'')) = None
   \<and> fst (handle_device_discovery quiet_env ''2026-01-01T00:00:00'' init
             ''smarthome/discovery/d1'' (JObj d1_items)) = Returns ()
   \<and> subscribed home = [''smarthome/devices/d1/#'']
   \<and> dom (devices home) = {IdStr ''d1''}
   \<and> devices (snd (handle_device_discovery quiet_env ''2026-01-01T00:00:09''
         (perform_all quiet_env home
            [(''2026-01-01T00:00:07'',
              OnMessage \<lparr>msg_topic = ''smarthome/devices/d1/status'', msg_payload = ''{}''\<rparr>)])
         ''smarthome/discovery/d1'' (JObj d1_items)))
       = devices (perform_all quiet_env home
            [(''2026-01-01T00:00:07'',
              OnMessage \<lparr>msg_topic = ''smarthome/devices/d1/status'', msg_payload = ''{}''\<rparr>)])
   \<and> subscribed (snd (handle_device_discovery quiet_env ''2026-01-01T00:00:09''
         (perform_all quiet_env home
            [(''2026-01-01T00:00:07'',
              OnMessage \<lparr>msg_topic = ''smarthome/devices/d1/status'', msg_payload = ''{}''\<rparr>)])
         ''smarthome/discovery/d1'' (JObj d1_items)))
       = subscribed (perform_all quiet_env home
            [(''2026-01-01T00:00:07'',
              OnMessage \<lparr>msg_topic = ''smarthome/devices/d1/status'', msg_payload = ''{}''\<rparr>)])
   \<and> truthy (get [(''device_id'', JStr ''a#b'')] ''device_id'')
   \<and> as_id (get [(''device_id'', JStr ''a#b'')] ''device_id'') = Some (IdStr ''a#b'')
   \<and> devices init (hash_key (IdStr ''a#b'')) = None
   \<and> fst (handle_device_discovery quiet_env ''2026-01-01T00:00:00'' init
             ''smarthome/discovery/x'' (JObj [(''device_id'', JStr ''a#b'')])) = Raises ValueError
   \<and> dom (devices (snd (handle_device_discovery quiet_env ''2026-01-01T00:00:00'' init
             ''smarthome/discovery/x'' (JObj [(''device_id'', JStr ''a#b'')])))) = {IdStr ''a#b''}
   \<and> subscribed (snd (handle_device_discovery quiet_env ''2026-01-01T00:00:00'' init
             ''smarthome/discovery/x'' (JObj [(''device_id'', JStr ''a#b'')])))
       = [''smarthome/devices/a#b/#'']"
proof -
  have h1: "truthy (get d1_items ''device_id'')"
    by (simp add: d1_items_def get_def get_default_def)
  have h2: "as_id (get d1_items ''device_id'') = Some (IdStr ''d1'')"
    by (simp add: d1_items_def get_def get_default_def)
  have h3: "devices init (hash_key (IdStr ''d1'')) = None"
    by (simp add: init_def)
  have k1: "truthy (get [(''device_id'', JStr ''a#b'')] ''device_id'')"
    by (simp add: get_def get_default_def)
  have k2: "as_id (get [(''device_id'', JStr ''a#b'')] ''device_id'') = Some (IdStr ''a#b'')"
    by (simp add: get_def get_default_def)
  have k3: "devices init (hash_key (IdStr ''a#b'')) = None"
    by (simp add: init_def)
  have ok: "subscribe_raises quiet_env ''smarthome/devices/d1/#'' = None"
    by (simp add: quiet_env_def paho_subscribe_raises_def)
  have bad: "subscribe_raises quiet_env ''smarthome/devices/a#b/#'' = Some ValueError"
    by (simp add: quiet_env_def paho_subscribe_raises_def)
  note t = discovery_once [OF h1 h2 h3, of quiet_env "''2026-01-01T00:00:00''"
                             "''smarthome/discovery/d1''"]
  note u = discovery_once [OF k1 k2 k3, of quiet_env "''2026-01-01T00:00:00''"
                             "''smarthome/discovery/x''", THEN conjunct1]
  have first: "fst (handle_device_discovery quiet_env ''2026-01-01T00:00:00'' init
                 ''smarthome/discovery/d1'' (JObj d1_items)) = Returns ()
      \<and> subscribed home = [''smarthome/devices/d1/#''] \<and> dom (devices home) = {IdStr ''d1''}"
    using t ok unfolding home_def d1_announcement_def by (simp add: init_def)
  have second: "let s2 = perform_all quiet_env home
            [(''2026-01-01T00:00:07'',
              OnMessage \<lparr>msg_topic = ''smarthome/devices/d1/status'', msg_payload = ''{}''\<rparr>)];
          s3 = snd (handle_device_discovery quiet_env ''2026-01-01T00:00:09'' s2
                 ''smarthome/discovery/d1'' (JObj d1_items))
      in fst (handle_device_discovery quiet_env ''2026-01-01T00:00:09'' s2
                 ''smarthome/discovery/d1'' (JObj d1_items)) = Returns ()
         \<and> devices s3 = devices s2
         \<and> subscribed s3 = subscribed s2
         \<and> (\<exists>d. devices s3 (hash_key (IdStr ''d1'')) = Some d \<and> dev_id d = get d1_items ''device_id'')"
    using t [THEN conjunct2, rule_format, where kvs' = d1_items and i' = "IdStr ''d1''"
               and now' = "''2026-01-01T00:00:09''"
               and topic' = "''smarthome/discovery/d1''"
               and ops = "[(''2026-01-01T00:00:07'',
                   OnMessage \<lparr>msg_topic = ''smarthome/devices/d1/status'', msg_payload = ''{}''\<rparr>)]"] h2
    unfolding home_def d1_announcement_def by simp
  have third: "fst (handle_device_discovery quiet_env ''2026-01-01T00:00:00'' init
             ''smarthome/discovery/x'' (JObj [(''device_id'', JStr ''a#b'')])) = Raises ValueError
   \<and> dom (devices (snd (handle_device_discovery quiet_env ''2026-01-01T00:00:00'' init
             ''smarthome/discovery/x'' (JObj [(''device_id'', JStr ''a#b'')])))) = {IdStr ''a#b''}
   \<and> subscribed (snd (handle_device_discovery quiet_env ''2026-01-01T00:00:00'' init
             ''smarthome/discovery/x'' (JObj [(''device_id'', JStr ''a#b'')])))
       = [''smarthome/devices/a#b/#'']"
    using u bad by (simp add: init_def)
  show ?thesis
    using h1 h2 h3 k1 k2 k3 first second third unfolding Let_def by simp
qed

text \<open>
  The claim as first stated fails for an id that is falsy: the payload carries the
  \<^verbatim>\<open>device_id\<close> \<^verbatim>\<open>""\<close>, which is not in the registry, and no record and no subscription
  result.
\<close>

theorem discovery_empty_id_counterexample:
  "get [(''device_id'', JStr '''')] ''device_id'' = JStr ''''
   \<and> devices init (hash_key (IdStr '''')) = None
   \<and> fst (handle_device_discovery quiet_env ''2026-01-01T00:00:00'' init ''smarthome/discovery/x''
            (JObj [(''device_id'', JStr '''')])) = Returns ()
   \<and> devices (snd (handle_device_discovery quiet_env ''2026-01-01T00:00:00'' init ''smarthome/discovery/x''
            (JObj [(''device_id'', JStr '''')]))) (hash_key (IdStr '''')) = None
   \<and> subscribed (snd (handle_device_discovery quiet_env ''2026-01-01T00:00:00'' init ''smarthome/discovery/x''
            (JObj [(''device_id'', JStr '''')]))) = []"
  by (simp add: handle_device_discovery_def log_call_def get_def get_default_def init_def)

text \<open>
  Claim C10.  A discovery payload whose \<^verbatim>\<open>device_id\<close> key is bound to a falsy value (the
  empty string, \<^verbatim>\<open>0\<close>, \<^verbatim>\<open>null\<close>, \<^verbatim>\<open>false\<close>, an empty list or dict) is handled as the
  same payload without that key is: the handler returns, and the manager is as before
  (no record, no subscription) but for the history entry of the call.
\<close>

theorem falsy_device_id_as_absent:
  assumes "map_of kvs ''device_id'' = Some v" and "\<not> truthy v"
  shows "handle_device_discovery e now s topic (JObj kvs)
           = (Returns (), s\<lparr>handler_calls := handler_calls s @ [Discovery topic (JObj kvs)]\<rparr>)
         \<and> handle_device_discovery e now s topic (JObj (filter (\<lambda>kv. fst kv \<noteq> ''device_id'') kvs))
           = (Returns (), s\<lparr>handler_calls := handler_calls s @
                 [Discovery topic (JObj (filter (\<lambda>kv. fst kv \<noteq> ''device_id'') kvs))]\<rparr>)"
proof -
  have "\<not> truthy (get kvs ''device_id'')"
    using assms by (simp add: get_present)
  moreover have "\<not> truthy (get (filter (\<lambda>kv. fst kv \<noteq> ''device_id'') kvs) ''device_id'')"
    by (simp add: get_absent map_of_filter_key)
  ultimately show ?thesis
    by (simp add: discovery_falsy)
qed

theorem falsy_device_id_as_absent_witness:
  "map_of [(''device_id'', JInt 0), (''type'', JStr ''light'')] ''device_id'' = Some (JInt 0)
   \<and> \<not> truthy (JInt 0)
   \<and> handle_device_discovery quiet_env ''2026-01-01T00:00:00'' home ''smarthome/discovery/x''
        (JObj [(''device_id'', JInt 0), (''type'', JStr ''light'')])
      = (Returns (), home\<lparr>handler_calls := handler_calls home @
           [Discovery ''smarthome/discovery/x''
              (JObj [(''device_id'', JInt 0), (''type'', JStr ''light'')])]\<rparr>)
   \<and> handle_device_discovery quiet_env ''2026-01-01T00:00:00'' home ''smarthome/discovery/x''
        (JObj [(''type'', JStr ''light'')])
      = (Returns (), home\<lparr>handler_calls := handler_calls home @
           [Discovery ''smarthome/discovery/x'' (JObj [(''type'', JStr ''light'')])]\<rparr>)"
  using falsy_device_id_as_absent
          [of "[(''device_id'', JInt 0), (''type'', JStr ''light'')]" "JInt 0"
              quiet_env "''2026-01-01T00:00:00''" home "''smarthome/discovery/x''"]
  by simp

subsection \<open>State updates and status\<close>

lemma merge_items_other:
  "key \<notin> IdStr ` fst ` set kvs \<Longrightarrow> merge_items st kvs key = st key"
  by (induction kvs arbitrary: st) auto

lemma merge_items_in:
  "distinct (map fst kvs) \<Longrightarrow> (k, v) \<in> set kvs \<Longrightarrow> merge_items st kvs (IdStr k) = Some v"
proof (induction kvs arbitrary: st)
  case Nil
  then show ?case by simp
next
  case (Cons a kvs)
  obtain k' v' where a: "a = (k', v')" by (cases a)
  show ?case
  proof (cases "(k, v) = a")
    case True
    then have "IdStr k \<notin> IdStr ` fst ` set kvs"
      using Cons.prems(1) a by auto
    then show ?thesis
      using True a by (simp add: merge_items_other)
  next
    case False
    then show ?thesis
      using Cons a by auto
  qed
qed

lemma state_update_unknown:
  "devices s (IdStr device_id) = None \<Longrightarrow>
   handle_device_state_update now s device_id payload
     = (Returns (), s\<lparr>handler_calls := handler_calls s @ [StateUpdate device_id payload]\<rparr>)"
  by (simp add: handle_device_state_update_def log_call_def)

lemma state_update_known:
  "devices s (IdStr device_id) = Some d \<Longrightarrow>
   handle_device_state_update now s device_id (JObj kvs)
     = (Returns (),
        s\<lparr>devices := (devices s)(IdStr device_id \<mapsto>
              d\<lparr>state := merge_items (state d) kvs, last_update := Some now\<rparr>),
           handler_calls := handler_calls s @ [StateUpdate device_id (JObj kvs)]\<rparr>)"
  by (simp add: handle_device_state_update_def log_call_def)

text \<open>
  Claim C3.  A state update for a device id that is a key of the registry, with a dict
  payload, stores every item of the payload in the record's \<^verbatim>\<open>state\<close> dict, leaves every
  other key of \<^verbatim>\<open>state\<close> with its value, and sets \<^verbatim>\<open>last_update\<close> to the current time;
  all other records stay.  For a device id that is not a key, the handler returns and
  the registry is unchanged, whatever the payload.
\<close>

theorem state_update_merges:
  "(devices s (IdStr device_id) = Some d \<and> distinct (map fst kvs) \<longrightarrow>
      handle_device_state_update now s device_id (JObj kvs)
        = (Returns (),
           s\<lparr>devices := (devices s)(IdStr device_id \<mapsto>
                 d\<lparr>state := merge_items (state d) kvs, last_update := Some now\<rparr>),
              handler_calls := handler_calls s @ [StateUpdate device_id (JObj kvs)]\<rparr>)
      \<and> (\<forall>k v. (k, v) \<in> set kvs \<longrightarrow> merge_items (state d) kvs (IdStr k) = Some v)
      \<and> (\<forall>key. key \<notin> IdStr ` fst ` set kvs \<longrightarrow> merge_items (state d) kvs key = state d key))
   \<and> (devices s (IdStr device_id) = None \<longrightarrow>
        handle_device_state_update now s device_id payload
          = (Returns (), s\<lparr>handler_calls := handler_calls s @ [StateUpdate device_id payload]\<rparr>))"
  by (simp add: state_update_known state_update_unknown merge_items_in merge_items_other)

theorem state_update_merges_witness:
  "devices home (IdStr ''d1'') = Some d1_record
   \<and> distinct (map fst [(''on'', JBool True), (''level'', JInt 5)])
   \<and> handle_device_state_update ''2026-01-01T00:00:03'' home ''d1''
           (JObj [(''on'', JBool True), (''level'', JInt 5)])
       = (Returns (),
          home\<lparr>devices := (devices home)(IdStr ''d1'' \<mapsto>
                  d1_record\<lparr>state := merge_items (state d1_record)
                                      [(''on'', JBool True), (''level'', JInt 5)],
                            last_update := Some ''2026-01-01T00:00:03''\<rparr>),
               handler_calls := handler_calls home @
                  [StateUpdate ''d1'' (JObj [(''on'', JBool True), (''level'', JInt 5)])]\<rparr>)
   \<and> merge_items (state d1_record) [(''on'', JBool True), (''level'', JInt 5)] (IdStr ''on'')
       = Some (JBool True)
   \<and> merge_items (state d1_record) [(''on'', JBool True), (''level'', JInt 5)] (IdStr ''mode'')
       = state d1_record (IdStr ''mode'')
   \<and> devices home (IdStr ''d2'') = None
   \<and> handle_device_state_update ''2026-01-01T00:00:03'' home ''d2'' (JObj [(''on'', JBool True)])
       = (Returns (),
          home\<lparr>handler_calls := handler_calls home @
                  [StateUpdate ''d2'' (JObj [(''on'', JBool True)])]\<rparr>)"
  using state_update_merges
          [of home "''d1''" d1_record "[(''on'', JBool True), (''level'', JInt 5)]"
              "''2026-01-01T00:00:03''"]
        state_update_merges
          [of home "''d2''" d1_record "[]" "''2026-01-01T00:00:03''" "JObj [(''on'', JBool True)]"]
  by (simp add: home_devices_d1 home_devices_d2)

lemma status_unknown:
  "devices s (IdStr device_id) = None \<Longrightarrow>
   handle_device_status s device_id payload
     = (Returns (), s\<lparr>handler_calls := handler_calls s @ [Status device_id payload]\<rparr>)"
  by (simp add: handle_device_status_def log_call_def)

lemma status_known:
  "devices s (IdStr device_id) = Some d \<Longrightarrow>
   handle_device_status s device_id (JObj kvs)
     = (Returns (),
        s\<lparr>devices := (devices s)(IdStr device_id \<mapsto>
              d\<lparr>online := (case map_of kvs ''online'' of None \<Rightarrow> JBool False | Some v \<Rightarrow> v),
                battery := Some (case map_of kvs ''battery'' of None \<Rightarrow> JNull | Some v \<Rightarrow> v),
                signal_strength :=
                  Some (case map_of kvs ''signal_strength'' of None \<Rightarrow> JNull | Some v \<Rightarrow> v)\<rparr>),
           handler_calls := handler_calls s @ [Status device_id (JObj kvs)]\<rparr>)"
  by (simp add: handle_device_status_def log_call_def get_def get_default_def)

text \<open>
  Claim C4.  A status message for a device id that is a key of the registry, with a dict
  payload, replaces \<^verbatim>\<open>online\<close>, \<^verbatim>\<open>battery\<close> and \<^verbatim>\<open>signal_strength\<close> of that record by
  the payload's values: \<^verbatim>\<open>online\<close> is \<^verbatim>\<open>False\<close> when the payload has no such key, the
  other two are \<^verbatim>\<open>None\<close> (the optional value is absent) when the payload has none.  No
  other field of the record changes, the \<^verbatim>\<open>state\<close> dict in particular, and no other
  record.  For a device id that is not a key the registry is unchanged.
\<close>

theorem status_replaces:
  "(devices s (IdStr device_id) = Some d \<longrightarrow>
      handle_device_status s device_id (JObj kvs)
        = (Returns (),
           s\<lparr>devices := (devices s)(IdStr device_id \<mapsto>
                 d\<lparr>online := (case map_of kvs ''online'' of None \<Rightarrow> JBool False | Some v \<Rightarrow> v),
                   battery := Some (case map_of kvs ''battery'' of None \<Rightarrow> JNull | Some v \<Rightarrow> v),
                   signal_strength :=
                     Some (case map_of kvs ''signal_strength'' of None \<Rightarrow> JNull | Some v \<Rightarrow> v)\<rparr>),
              handler_calls := handler_calls s @ [Status device_id (JObj kvs)]\<rparr>)
      \<and> state (the (devices (snd (handle_device_status s device_id (JObj kvs))) (IdStr device_id)))
          = state d
      \<and> (\<forall>k. k \<noteq> IdStr device_id \<longrightarrow>
            devices (snd (handle_device_status s device_id (JObj kvs))) k = devices s k))
   \<and> (devices s (IdStr device_id) = None \<longrightarrow>
        handle_device_status s device_id payload
          = (Returns (), s\<lparr>handler_calls := handler_calls s @ [Status device_id payload]\<rparr>))"
  by (simp add: status_known status_unknown)

theorem status_replaces_witness:
  "devices home (IdStr ''d1'') = Some d1_record
   \<and> handle_device_status home ''d1'' (JObj [(''online'', JBool False), (''battery'', JInt 42)])
       = (Returns (),
          home\<lparr>devices := (devices home)(IdStr ''d1'' \<mapsto>
                  d1_record\<lparr>online := JBool False, battery := Some (JInt 42),
                            signal_strength := Some JNull\<rparr>),
               handler_calls := handler_calls home @
                  [Status ''d1'' (JObj [(''online'', JBool False), (''battery'', JInt 42)])]\<rparr>)
   \<and> state (the (devices (snd (handle_device_status home ''d1''
           (JObj [(''online'', JBool False), (''battery'', JInt 42)]))) (IdStr ''d1'')))
       = state d1_record
   \<and> devices (snd (handle_device_status home ''d1''
           (JObj [(''online'', JBool False), (''battery'', JInt 42)]))) (IdStr ''d2'')
       = devices home (IdStr ''d2'')
   \<and> devices home (IdStr ''d2'') = None
   \<and> handle_device_status home ''d2'' (JObj [(''online'', JBool False)])
       = (Returns (),
          home\<lparr>handler_calls := handler_calls home @
                  [Status ''d2'' (JObj [(''online'', JBool False)])]\<rparr>)"
  using status_replaces
          [of home "''d1''" d1_record "[(''online'', JBool False), (''battery'', JInt 42)]"]
        status_replaces
          [of home "''d2''" d1_record "[]" "JObj [(''online'', JBool False)]"]
  by (simp add: home_devices_d1 home_devices_d2)

subsection \<open>The registry only grows\<close>

text \<open>
  Claim C9.  Whatever operation the manager performs (handling a message, a command or
  one of its wrappers, a scene, automation or energy request, a subscription, a lookup),
  every key of the registry before is a key after, and the record under it has the same
  \<^verbatim>\<open>id\<close>.
\<close>

theorem registry_only_grows:
  "dom (devices s) \<subseteq> dom (devices (perform e now s op))
   \<and> (\<forall>k d. devices s k = Some d \<longrightarrow>
         (\<exists>d'. devices (perform e now s op) k = Some d' \<and> dev_id d' = dev_id d))"
  using perform_keeps [of s e now op] unfolding keeps_records_def by blast

theorem registry_only_grows_witness:
  "devices home (IdStr ''d1'') = Some d1_record
   \<and> devices (perform quiet_env ''2026-01-01T00:00:07'' home
        (OnMessage \<lparr>msg_topic = ''smarthome/devices/d1/status'', msg_payload = ''{}''\<rparr>))
        (IdStr ''d1'') \<noteq> None
   \<and> dev_id (the (devices (perform quiet_env ''2026-01-01T00:00:07'' home
        (OnMessage \<lparr>msg_topic = ''smarthome/devices/d1/status'', msg_payload = ''{}''\<rparr>))
        (IdStr ''d1''))) = JStr ''d1''"
  using registry_only_grows
          [of home quiet_env "''2026-01-01T00:00:07''"
              "OnMessage \<lparr>msg_topic = ''smarthome/devices/d1/status'', msg_payload = ''{}''\<rparr>",
           THEN conjunct2, rule_format, of "IdStr ''d1''", OF home_devices_d1]
  by (auto simp add: home_devices_d1 d1_record_def)

subsection \<open>Messages that do not parse\<close>

lemma on_message_snd: "snd (on_message e now s msg) = snd (try_body e now s msg)"
  by (simp add: on_message_def split: prod.splits result.splits)

lemma on_message_parse_failure:
  "loads e (msg_payload msg) = None \<Longrightarrow> on_message e now s msg = (Returns (), s)"
  by (simp add: on_message_def try_body_def)

text \<open>
  Claim C8.  When the raw payload of a message does not decode and parse, \<^verbatim>\<open>_on_message\<close>
  returns normally and the manager is exactly as before: the registry and the callback
  registry are unchanged, no built-in handler has run (the history is the same), no
  callback has been invoked.  Delivery goes on: handling the stream that starts with
  such a message is handling the rest of the stream.
\<close>

theorem malformed_payload_dropped:
  assumes "loads e (msg_payload msg) = None"
  shows "on_message e now s msg = (Returns (), s)
         \<and> process_events e s ((now, msg) # rest) = process_events e s rest"
  using assms by (simp add: on_message_parse_failure)

theorem malformed_payload_dropped_witness:
  "loads quiet_env (msg_payload \<lparr>msg_topic = ''smarthome/devices/d1/state'', msg_payload = ''{on''\<rparr>)
     = None
   \<and> on_message quiet_env ''2026-01-01T00:00:02''
        (snd (subscribe_to_topic quiet_env home ''smarthome/devices/d1/state'' 7))
        \<lparr>msg_topic = ''smarthome/devices/d1/state'', msg_payload = ''{on''\<rparr>
      = (Returns (), snd (subscribe_to_topic quiet_env home ''smarthome/devices/d1/state'' 7))
   \<and> process_events quiet_env (snd (subscribe_to_topic quiet_env home ''smarthome/devices/d1/state'' 7))
        [(''2026-01-01T00:00:02'',
          \<lparr>msg_topic = ''smarthome/devices/d1/state'', msg_payload = ''{on''\<rparr>),
         (''2026-01-01T00:00:03'',
          \<lparr>msg_topic = ''smarthome/devices/d1/state'', msg_payload = ''{}''\<rparr>)]
      = process_events quiet_env (snd (subscribe_to_topic quiet_env home ''smarthome/devices/d1/state'' 7))
        [(''2026-01-01T00:00:03'',
          \<lparr>msg_topic = ''smarthome/devices/d1/state'', msg_payload = ''{}''\<rparr>)]"
proof -
  have h: "loads quiet_env
             (msg_payload \<lparr>msg_topic = ''smarthome/devices/d1/state'', msg_payload = ''{on''\<rparr>) = None"
    by (simp add: quiet_env_def toy_loads_def)
  show ?thesis
    using h malformed_payload_dropped [OF h] by blast
qed

subsection \<open>Classification by topic\<close>

lemma builtin_frame:
  "callbacks (snd (builtin_handling e now s topic payload)) = callbacks s
   \<and> invoked (snd (builtin_handling e now s topic payload)) = invoked s
   \<and> published (snd (builtin_handling e now s topic payload)) = published s"
  by (auto simp add: builtin_handling_def handle_device_discovery_def
      handle_device_state_update_def handle_device_status_def log_call_def
      client_subscribe_def Let_def
      split: sum.splits json.splits option.splits prod.splits result.splits)

lemma on_message_calls:
  "loads e (msg_payload msg) = Some payload \<Longrightarrow>
   handler_calls (snd (on_message e now s msg))
     = handler_calls (snd (builtin_handling e now s (msg_topic msg) payload))
   \<and> devices (snd (on_message e now s msg))
     = devices (snd (builtin_handling e now s (msg_topic msg) payload))"
  by (simp add: on_message_snd try_body_def Let_def run_callbacks_frame
      split: prod.splits result.splits option.splits)

lemma discovery_calls:
  "handler_calls (snd (handle_device_discovery e now s topic payload))
     = handler_calls s @ [Discovery topic payload]"
  by (simp add: handle_device_discovery_def log_call_def client_subscribe_def Let_def
      split: json.splits option.splits)

lemma state_update_calls:
  "handler_calls (snd (handle_device_state_update now s device_id payload))
     = handler_calls s @ [StateUpdate device_id payload]"
  by (simp add: handle_device_state_update_def log_call_def Let_def
      split: option.splits prod.splits result.splits)

lemma status_calls:
  "handler_calls (snd (handle_device_status s device_id payload))
     = handler_calls s @ [Status device_id payload]"
  by (simp add: handle_device_status_def log_call_def Let_def
      split: json.splits option.splits)

text \<open>
  Claim C5, as amended.  For a message whose payload parses, at most one built-in
  handler is called, chosen by first match: the discovery handler when the topic starts
  with \<^verbatim>\<open>smarthome/discovery/\<close> (also when it ends with \<^verbatim>\<open>/state\<close> or \<^verbatim>\<open>/status\<close>);
  otherwise the state handler when the topic ends with \<^verbatim>\<open>/state\<close>, otherwise the status
  handler when it ends with \<^verbatim>\<open>/status\<close>, in both cases with the third segment of the
  topic as device id when the topic has a third segment, and no handler when it has
  none; and no handler when neither the prefix nor a suffix matches.  The registry
  after the message is the one the chosen handler leaves.
\<close>

theorem first_match_dispatch:
  assumes "loads e (msg_payload msg) = Some payload"
  shows
   "(startswith (msg_topic msg) ''smarthome/discovery/'' \<longrightarrow>
       handler_calls (snd (on_message e now s msg))
         = handler_calls s @ [Discovery (msg_topic msg) payload]
       \<and> devices (snd (on_message e now s msg))
         = devices (snd (handle_device_discovery e now s (msg_topic msg) payload)))
    \<and> (\<not> startswith (msg_topic msg) ''smarthome/discovery/''
        \<and> endswith (msg_topic msg) ''/state''
        \<and> 2 < length (split_on CHR ''/'' (msg_topic msg)) \<longrightarrow>
       handler_calls (snd (on_message e now s msg))
         = handler_calls s @ [StateUpdate (split_on CHR ''/'' (msg_topic msg) ! 2) payload]
       \<and> devices (snd (on_message e now s msg))
         = devices (snd (handle_device_state_update now s
                           (split_on CHR ''/'' (msg_topic msg) ! 2) payload)))
    \<and> (\<not> startswith (msg_topic msg) ''smarthome/discovery/''
        \<and> \<not> endswith (msg_topic msg) ''/state''
        \<and> endswith (msg_topic msg) ''/status''
        \<and> 2 < length (split_on CHR ''/'' (msg_topic msg)) \<longrightarrow>
       handler_calls (snd (on_message e now s msg))
         = handler_calls s @ [Status (split_on CHR ''/'' (msg_topic msg) ! 2) payload]
       \<and> devices (snd (on_message e now s msg))
         = devices (snd (handle_device_status s
                           (split_on CHR ''/'' (msg_topic msg) ! 2) payload)))
    \<and> (\<not> startswith (msg_topic msg) ''smarthome/discovery/''
        \<and> \<not> endswith (msg_topic msg) ''/state''
        \<and> \<not> endswith (msg_topic msg) ''/status'' \<longrightarrow>
       handler_calls (snd (on_message e now s msg)) = handler_calls s
       \<and> devices (snd (on_message e now s msg)) = devices s)
    \<and> (\<not> startswith (msg_topic msg) ''smarthome/discovery/''
        \<and> endswith (msg_topic msg) ''/state''
        \<and> \<not> 2 < length (split_on CHR ''/'' (msg_topic msg)) \<longrightarrow>
       handler_calls (snd (on_message e now s msg)) = handler_calls s
       \<and> devices (snd (on_message e now s msg)) = devices s)
    \<and> (\<not> startswith (msg_topic msg) ''smarthome/discovery/''
        \<and> \<not> endswith (msg_topic msg) ''/state''
        \<and> endswith (msg_topic msg) ''/status''
        \<and> \<not> 2 < length (split_on CHR ''/'' (msg_topic msg)) \<longrightarrow>
       handler_calls (snd (on_message e now s msg)) = handler_calls s
       \<and> devices (snd (on_message e now s msg)) = devices s)
    \<and> (\<exists>cs. handler_calls (snd (on_message e now s msg)) = handler_calls s @ cs
              \<and> length cs \<le> 1)"
proof -
  have calls: "handler_calls (snd (on_message e now s msg))
      = handler_calls (snd (builtin_handling e now s (msg_topic msg) payload))"
    and devs: "devices (snd (on_message e now s msg))
      = devices (snd (builtin_handling e now s (msg_topic msg) payload))"
    using on_message_calls [OF assms, of now s] by simp_all
  have most: "\<exists>cs. handler_calls (snd (builtin_handling e now s (msg_topic msg) payload))
                 = handler_calls s @ cs \<and> length cs \<le> 1"
    by (simp add: builtin_handling_def index_def discovery_calls state_update_calls status_calls)
  show ?thesis
    unfolding calls devs using most
    by (simp add: builtin_handling_def index_def discovery_calls state_update_calls status_calls)
qed

theorem first_match_dispatch_witness:
  "loads quiet_env ''{}'' = Some (JObj [])
   \<and> startswith ''smarthome/discovery/d9/state'' ''smarthome/discovery/''
   \<and> endswith ''smarthome/discovery/d9/state'' ''/state''
   \<and> handler_calls (snd (on_message quiet_env ''2026-01-01T00:00:02'' home
        \<lparr>msg_topic = ''smarthome/discovery/d9/state'', msg_payload = ''{}''\<rparr>))
       = handler_calls home @ [Discovery ''smarthome/discovery/d9/state'' (JObj [])]
   \<and> handler_calls (snd (on_message quiet_env ''2026-01-01T00:00:02'' home
        \<lparr>msg_topic = ''smarthome/devices/d1/state'', msg_payload = ''{}''\<rparr>))
       = handler_calls home @ [StateUpdate ''d1'' (JObj [])]
   \<and> handler_calls (snd (on_message quiet_env ''2026-01-01T00:00:02'' home
        \<lparr>msg_topic = ''smarthome/devices/d1/status'', msg_payload = ''{}''\<rparr>))
       = handler_calls home @ [Status ''d1'' (JObj [])]
   \<and> handler_calls (snd (on_message quiet_env ''2026-01-01T00:00:02'' home
        \<lparr>msg_topic = ''smarthome/alerts'', msg_payload = ''{}''\<rparr>))
       = handler_calls home
   \<and> split_on CHR ''/'' ''x/state'' = [''x'', ''state'']
   \<and> handler_calls (snd (on_message quiet_env ''2026-01-01T00:00:02'' home
        \<lparr>msg_topic = ''x/state'', msg_payload = ''{}''\<rparr>))
       = handler_calls home
   \<and> split_on CHR ''/'' ''x/status'' = [''x'', ''status'']
   \<and> handler_calls (snd (on_message quiet_env ''2026-01-01T00:00:02'' home
        \<lparr>msg_topic = ''x/status'', msg_payload = ''{}''\<rparr>))
       = handler_calls home"
  using first_match_dispatch
          [of quiet_env "\<lparr>msg_topic = ''smarthome/discovery/d9/state'', msg_payload = ''{}''\<rparr>"
              "JObj []" "''2026-01-01T00:00:02''" home]
        first_match_dispatch
          [of quiet_env "\<lparr>msg_topic = ''smarthome/devices/d1/state'', msg_payload = ''{}''\<rparr>"
              "JObj []" "''2026-01-01T00:00:02''" home]
        first_match_dispatch
          [of quiet_env "\<lparr>msg_topic = ''smarthome/devices/d1/status'', msg_payload = ''{}''\<rparr>"
              "JObj []" "''2026-01-01T00:00:02''" home]
        first_match_dispatch
          [of quiet_env "\<lparr>msg_topic = ''smarthome/alerts'', msg_payload = ''{}''\<rparr>"
              "JObj []" "''2026-01-01T00:00:02''" home]
        first_match_dispatch
          [of quiet_env "\<lparr>msg_topic = ''x/state'', msg_payload = ''{}''\<rparr>"
              "JObj []" "''2026-01-01T00:00:02''" home]
        first_match_dispatch
          [of quiet_env "\<lparr>msg_topic = ''x/status'', msg_payload = ''{}''\<rparr>"
              "JObj []" "''2026-01-01T00:00:02''" home]
  by (simp add: quiet_env_def toy_loads_def startswith_def endswith_def)

text \<open>
  The claim as first stated fails for a topic that ends with \<^verbatim>\<open>/state\<close> and has fewer
  than three segments: \<^verbatim>\<open>topic.split('/')[2]\<close> raises \<^verbatim>\<open>IndexError\<close>, which the
  \<^verbatim>\<open>except\<close> clause logs, and no handler is called.  It also fails for a message on a
  discovery topic whose payload does not parse: the message is dropped before the
  classification.
\<close>

theorem no_handler_counterexample:
  "loads quiet_env ''{}'' = Some (JObj [])
   \<and> \<not> startswith ''x/state'' ''smarthome/discovery/''
   \<and> endswith ''x/state'' ''/state''
   \<and> split_on CHR ''/'' ''x/state'' = [''x'', ''state'']
   \<and> on_message quiet_env ''2026-01-01T00:00:02'' init
        \<lparr>msg_topic = ''x/state'', msg_payload = ''{}''\<rparr> = (Returns (), init)
   \<and> loads quiet_env ''{on'' = None
   \<and> startswith ''smarthome/discovery/d1'' ''smarthome/discovery/''
   \<and> on_message quiet_env ''2026-01-01T00:00:02'' init
        \<lparr>msg_topic = ''smarthome/discovery/d1'', msg_payload = ''{on''\<rparr> = (Returns (), init)
   \<and> handler_calls init = []"
  by (simp add: quiet_env_def toy_loads_def startswith_def endswith_def on_message_def
      try_body_def builtin_handling_def index_def init_def)

subsection \<open>Callbacks\<close>

lemma run_callbacks_invoked:
  "invoked (snd (run_callbacks e topic payload cbs s))
     = invoked s @ map (\<lambda>c. (c, topic, payload)) (upto_first_raise e topic payload cbs)"
  by (induction cbs arbitrary: s) (auto simp add: Let_def split: option.splits)

lemma upto_first_raise_all:
  "\<forall>c\<in>set cbs. callback_outcome e c topic payload = None \<Longrightarrow>
   upto_first_raise e topic payload cbs = cbs"
  by (induction cbs) auto

lemma upto_first_raise_split:
  "\<forall>c'\<in>set pre. callback_outcome e c' topic payload = None \<Longrightarrow>
   callback_outcome e c topic payload = Some x \<Longrightarrow>
   upto_first_raise e topic payload (pre @ c # post) = pre @ [c]"
  by (induction pre) auto

lemma run_callbacks_raises:
  "\<forall>c'\<in>set pre. callback_outcome e c' topic payload = None \<Longrightarrow>
   callback_outcome e c topic payload = Some x \<Longrightarrow>
   fst (run_callbacks e topic payload (pre @ c # post) s) = Raises x"
  by (induction pre arbitrary: s) (auto simp add: Let_def)

lemma try_body_after_builtin:
  assumes "loads e (msg_payload msg) = Some payload"
    and "fst (builtin_handling e now s (msg_topic msg) payload) = Returns ()"
    and "callbacks s (msg_topic msg) = Some cbs"
  shows "try_body e now s msg
    = run_callbacks e (msg_topic msg) payload cbs
        (snd (builtin_handling e now s (msg_topic msg) payload))"
proof -
  obtain r s1 where b: "builtin_handling e now s (msg_topic msg) payload = (r, s1)"
    by (cases "builtin_handling e now s (msg_topic msg) payload")
  have "callbacks s1 (msg_topic msg) = Some cbs"
    using builtin_frame [of e now s "msg_topic msg" payload] b assms(3) by simp
  then show ?thesis
    using assms(1,2) b by (simp add: try_body_def Let_def)
qed

text \<open>
  Claim C6, as amended.  For a message whose payload parses and whose built-in handling
  returns without raising, whichever classification applied, the callbacks registered
  for the exact topic are invoked in registration order with the topic and the parsed
  payload, up to and including the first one that raises; when none raises, all of them
  are.  Registering the same callback twice stores it twice, so it is invoked twice.
\<close>

theorem callbacks_in_order:
  assumes "loads e (msg_payload msg) = Some payload"
    and "fst (builtin_handling e now s (msg_topic msg) payload) = Returns ()"
    and "callbacks s (msg_topic msg) = Some cbs"
  shows
   "invoked (snd (on_message e now s msg))
      = invoked s @ map (\<lambda>c. (c, msg_topic msg, payload))
                       (upto_first_raise e (msg_topic msg) payload cbs)
    \<and> ((\<forall>c\<in>set cbs. callback_outcome e c (msg_topic msg) payload = None) \<longrightarrow>
         invoked (snd (on_message e now s msg))
           = invoked s @ map (\<lambda>c. (c, msg_topic msg, payload)) cbs)
    \<and> callbacks (snd (subscribe_to_topic e (snd (subscribe_to_topic e s (msg_topic msg) c)) (msg_topic msg) c))
         (msg_topic msg) = Some (cbs @ [c, c])"
proof -
  have inv: "invoked (snd (on_message e now s msg))
      = invoked s @ map (\<lambda>c. (c, msg_topic msg, payload))
                       (upto_first_raise e (msg_topic msg) payload cbs)"
    using builtin_frame [of e now s "msg_topic msg" payload]
    by (simp add: on_message_snd try_body_after_builtin [OF assms] run_callbacks_invoked)
  have reg: "callbacks (snd (subscribe_to_topic e (snd (subscribe_to_topic e s (msg_topic msg) c)) (msg_topic msg) c))
         (msg_topic msg) = Some (cbs @ [c, c])"
    using assms(3) by (simp add: subscribe_to_topic_def Let_def)
  show ?thesis
    using inv reg by (simp add: upto_first_raise_all)
qed

theorem callbacks_in_order_witness:
  "loads quiet_env (msg_payload \<lparr>msg_topic = ''smarthome/devices/d1/state'', msg_payload = ''{}''\<rparr>)
     = Some (JObj [])
   \<and> fst (builtin_handling quiet_env ''2026-01-01T00:00:02''
        (snd (subscribe_to_topic quiet_env (snd (subscribe_to_topic quiet_env home ''smarthome/devices/d1/state'' 7))
           ''smarthome/devices/d1/state'' 7))
        ''smarthome/devices/d1/state'' (JObj [])) = Returns ()
   \<and> callbacks (snd (subscribe_to_topic quiet_env (snd (subscribe_to_topic quiet_env home ''smarthome/devices/d1/state'' 7))
           ''smarthome/devices/d1/state'' 7)) ''smarthome/devices/d1/state'' = Some [7, 7]
   \<and> invoked (snd (on_message quiet_env ''2026-01-01T00:00:02''
        (snd (subscribe_to_topic quiet_env (snd (subscribe_to_topic quiet_env home ''smarthome/devices/d1/state'' 7))
           ''smarthome/devices/d1/state'' 7))
        \<lparr>msg_topic = ''smarthome/devices/d1/state'', msg_payload = ''{}''\<rparr>))
       = [(7, ''smarthome/devices/d1/state'', JObj []), (7, ''smarthome/devices/d1/state'', JObj [])]"
proof -
  let ?s = "snd (subscribe_to_topic quiet_env (snd (subscribe_to_topic quiet_env home ''smarthome/devices/d1/state'' 7))
              ''smarthome/devices/d1/state'' 7)"
  let ?msg = "\<lparr>msg_topic = ''smarthome/devices/d1/state'', msg_payload = ''{}''\<rparr>"
  have h1: "loads quiet_env (msg_payload ?msg) = Some (JObj [])"
    by (simp add: quiet_env_def toy_loads_def)
  have d: "devices ?s (IdStr ''d1'') = Some d1_record"
    by (simp add: subscribe_to_topic_def client_subscribe_def quiet_env_def faulty_env_def
        paho_subscribe_raises_def Let_def home_devices_d1)
  have h2: "fst (builtin_handling quiet_env ''2026-01-01T00:00:02'' ?s (msg_topic ?msg) (JObj [])) = Returns ()"
    using d
    by (simp add: builtin_handling_def startswith_def endswith_def index_def
        handle_device_state_update_def log_call_def)
  have c0: "callbacks home ''smarthome/devices/d1/state'' = None"
    by (simp add: home_callbacks)
  have i0: "invoked home = []"
    by (simp add: home_invoked)
  have h3: "callbacks ?s (msg_topic ?msg) = Some [7, 7]"
    using c0 by (simp add: subscribe_to_topic_def client_subscribe_def quiet_env_def faulty_env_def
        paho_subscribe_raises_def Let_def)
  have i1: "invoked ?s = []"
    using i0 by (simp add: subscribe_to_topic_def client_subscribe_def quiet_env_def faulty_env_def
        paho_subscribe_raises_def Let_def)
  have quiet: "\<forall>c\<in>set [7, 7]. callback_outcome quiet_env c (msg_topic ?msg) (JObj []) = None"
    by (simp add: quiet_env_def)
  note t = callbacks_in_order [OF h1 h2 h3, of 7]
  have "invoked (snd (on_message quiet_env ''2026-01-01T00:00:02'' ?s ?msg))
          = invoked ?s @ map (\<lambda>c. (c, msg_topic ?msg, JObj [])) [7, 7]"
    using t quiet by blast
  then show ?thesis
    using h1 h2 h3 i1 by simp
qed

text \<open>
  The claim as first stated fails in two ways.  On the topic \<^verbatim>\<open>x/state\<close> the
  \<^verbatim>\<open>IndexError\<close> of the classification ends the \<^verbatim>\<open>try\<close> block before the callbacks are
  reached.  With two callbacks registered, the first raising a \<^verbatim>\<open>ValueError\<close>, the
  second is never invoked.
\<close>

theorem skipped_callbacks_counterexample:
  "loads quiet_env ''{}'' = Some (JObj [])
   \<and> callbacks (snd (subscribe_to_topic quiet_env init ''x/state'' 7)) ''x/state'' = Some [7]
   \<and> invoked (snd (on_message quiet_env ''2026-01-01T00:00:02''
        (snd (subscribe_to_topic quiet_env init ''x/state'' 7))
        \<lparr>msg_topic = ''x/state'', msg_payload = ''{}''\<rparr>)) = []
   \<and> loads faulty_env ''{}'' = Some (JObj [])
   \<and> callbacks (snd (subscribe_to_topic faulty_env (snd (subscribe_to_topic faulty_env init ''alerts'' 1)) ''alerts'' 3)) ''alerts''
       = Some [1, 3]
   \<and> invoked (snd (on_message faulty_env ''2026-01-01T00:00:02''
        (snd (subscribe_to_topic faulty_env (snd (subscribe_to_topic faulty_env init ''alerts'' 1)) ''alerts'' 3))
        \<lparr>msg_topic = ''alerts'', msg_payload = ''{}''\<rparr>)) = [(1, ''alerts'', JObj [])]"
  by (simp add: quiet_env_def faulty_env_def toy_loads_def startswith_def endswith_def
      on_message_def try_body_def builtin_handling_def index_def init_def
      subscribe_to_topic_def client_subscribe_def paho_subscribe_raises_def Let_def)

text \<open>
  Claim C7, as amended.  When a callback raises during dispatch, the callbacks after it
  are not invoked and the registry stays as the built-in handler left it.  If what it
  raises is an \<^verbatim>\<open>Exception\<close>, the \<^verbatim>\<open>except\<close> clause of \<^verbatim>\<open>_on_message\<close> catches it and
  the method returns normally to the transport; only an exception outside \<^verbatim>\<open>Exception\<close>
  (\<^verbatim>\<open>KeyboardInterrupt\<close>, \<^verbatim>\<open>SystemExit\<close>) leaves the method.
\<close>

theorem callback_exception_caught:
  assumes "loads e (msg_payload msg) = Some payload"
    and "fst (builtin_handling e now s (msg_topic msg) payload) = Returns ()"
    and "callbacks s (msg_topic msg) = Some (pre @ c # post)"
    and "\<forall>c'\<in>set pre. callback_outcome e c' (msg_topic msg) payload = None"
    and "callback_outcome e c (msg_topic msg) payload = Some x"
  shows
   "fst (on_message e now s msg) = (if is_Exception x then Returns () else Raises x)
    \<and> invoked (snd (on_message e now s msg))
        = invoked s @ map (\<lambda>c. (c, msg_topic msg, payload)) (pre @ [c])
    \<and> devices (snd (on_message e now s msg))
        = devices (snd (builtin_handling e now s (msg_topic msg) payload))"
proof -
  have tb: "try_body e now s msg
    = run_callbacks e (msg_topic msg) payload (pre @ c # post)
        (snd (builtin_handling e now s (msg_topic msg) payload))"
    using assms(1,2,3) by (rule try_body_after_builtin)
  have "fst (try_body e now s msg) = Raises x"
    unfolding tb using assms(4,5) by (rule run_callbacks_raises)
  then have res: "fst (on_message e now s msg) = (if is_Exception x then Returns () else Raises x)"
    by (cases "try_body e now s msg") (simp add: on_message_def)
  have inv: "invoked (snd (on_message e now s msg))
        = invoked s @ map (\<lambda>c. (c, msg_topic msg, payload)) (pre @ [c])"
    using builtin_frame [of e now s "msg_topic msg" payload] assms(4,5)
    by (simp add: on_message_snd tb run_callbacks_invoked upto_first_raise_split)
  have dev: "devices (snd (on_message e now s msg))
        = devices (snd (builtin_handling e now s (msg_topic msg) payload))"
    by (simp add: on_message_snd tb run_callbacks_frame)
  show ?thesis
    using res inv dev by simp
qed

theorem callback_exception_caught_witness:
  "fst (on_message faulty_env ''2026-01-01T00:00:02''
        (snd (subscribe_to_topic faulty_env (snd (subscribe_to_topic faulty_env init ''alerts'' 3)) ''alerts'' 1))
        \<lparr>msg_topic = ''alerts'', msg_payload = ''{}''\<rparr>) = Returns ()
   \<and> invoked (snd (on_message faulty_env ''2026-01-01T00:00:02''
        (snd (subscribe_to_topic faulty_env (snd (subscribe_to_topic faulty_env init ''alerts'' 3)) ''alerts'' 1))
        \<lparr>msg_topic = ''alerts'', msg_payload = ''{}''\<rparr>))
       = [(3, ''alerts'', JObj []), (1, ''alerts'', JObj [])]
   \<and> fst (on_message faulty_env ''2026-01-01T00:00:02''
        (snd (subscribe_to_topic faulty_env init ''alerts'' 2))
        \<lparr>msg_topic = ''alerts'', msg_payload = ''{}''\<rparr>) = Raises KeyboardInterrupt"
proof -
  let ?msg = "\<lparr>msg_topic = ''alerts'', msg_payload = ''{}''\<rparr>"
  let ?s = "snd (subscribe_to_topic faulty_env (snd (subscribe_to_topic faulty_env init ''alerts'' 3))
              ''alerts'' 1)"
  let ?s2 = "snd (subscribe_to_topic faulty_env init ''alerts'' 2)"
  have h1: "loads faulty_env (msg_payload ?msg) = Some (JObj [])"
    by (simp add: faulty_env_def toy_loads_def)
  have h2: "fst (builtin_handling faulty_env ''2026-01-01T00:00:02'' ?s (msg_topic ?msg) (JObj [])) = Returns ()"
    by (simp add: builtin_handling_def startswith_def endswith_def)
  have h2': "fst (builtin_handling faulty_env ''2026-01-01T00:00:02'' ?s2 (msg_topic ?msg) (JObj [])) = Returns ()"
    by (simp add: builtin_handling_def startswith_def endswith_def)
  have h3: "callbacks ?s (msg_topic ?msg) = Some ([3] @ 1 # [])"
    by (simp add: subscribe_to_topic_def client_subscribe_def quiet_env_def faulty_env_def
        paho_subscribe_raises_def init_def Let_def)
  have h3': "callbacks ?s2 (msg_topic ?msg) = Some ([] @ 2 # [])"
    by (simp add: subscribe_to_topic_def client_subscribe_def quiet_env_def faulty_env_def
        paho_subscribe_raises_def init_def Let_def)
  have h4: "\<forall>c'\<in>set [3]. callback_outcome faulty_env c' (msg_topic ?msg) (JObj []) = None"
    by (simp add: faulty_env_def)
  have h4': "\<forall>c'\<in>set []. callback_outcome faulty_env c' (msg_topic ?msg) (JObj []) = None"
    by simp
  have h5: "callback_outcome faulty_env 1 (msg_topic ?msg) (JObj []) = Some ValueError"
    by (simp add: faulty_env_def)
  have h5': "callback_outcome faulty_env 2 (msg_topic ?msg) (JObj []) = Some KeyboardInterrupt"
    by (simp add: faulty_env_def)
  have i: "invoked ?s = []"
    by (simp add: subscribe_to_topic_def client_subscribe_def quiet_env_def faulty_env_def
        paho_subscribe_raises_def init_def Let_def)
  show ?thesis
    using callback_exception_caught [OF h1 h2 h3 h4 h5]
          callback_exception_caught [OF h1 h2' h3' h4' h5'] i
    by simp
qed

text \<open>
  The claim as first stated fails: a callback that raises a \<^verbatim>\<open>ValueError\<close> is invoked,
  and \<^verbatim>\<open>_on_message\<close> returns normally.
\<close>

theorem callback_exception_counterexample:
  "loads faulty_env ''{}'' = Some (JObj [])
   \<and> callbacks (snd (subscribe_to_topic faulty_env init ''alerts'' 1)) ''alerts'' = Some [1]
   \<and> callback_outcome faulty_env 1 ''alerts'' (JObj []) = Some ValueError
   \<and> invoked (snd (on_message faulty_env ''2026-01-01T00:00:02''
        (snd (subscribe_to_topic faulty_env init ''alerts'' 1))
        \<lparr>msg_topic = ''alerts'', msg_payload = ''{}''\<rparr>)) = [(1, ''alerts'', JObj [])]
   \<and> fst (on_message faulty_env ''2026-01-01T00:00:02''
        (snd (subscribe_to_topic faulty_env init ''alerts'' 1))
        \<lparr>msg_topic = ''alerts'', msg_payload = ''{}''\<rparr>) = Returns ()"
  by (simp add: faulty_env_def toy_loads_def startswith_def endswith_def
      on_message_def try_body_def builtin_handling_def index_def init_def
      subscribe_to_topic_def client_subscribe_def paho_subscribe_raises_def Let_def)

end
